theory Spec2Isabelle
  imports Main
begin

section \<open>Data model\<close>

text \<open>
  The nested-app-auth controller of msal-browser
  (\<^verbatim>\<open>src/lib/msal-browser/src/controllers/NestedAppAuthController.ts\<close>) is embedded
  as state-passing functions. The controller object \<open>this\<close> is a record of its
  collaborators (bridge proxy, crypto, configuration, browser storage, adapter); each
  collaborator is a record of the functions the controller calls on it. What the
  controller can change or observe from outside is the \<open>world\<close>: the contents of the
  browser storage, the clock, the number of GUIDs handed out, and the ordered trace of
  calls made on the event handler, the performance client, the bridge and the storage.
  Calls on the logger have no bearing on any result and are left out.
\<close>

record AccountInfo =
  homeAccountId :: string
  environment :: string
  tenantId :: string
  username :: string
  localAccountId :: string

text \<open>
  \<^verbatim>\<open>SilentRequest | SsoSilentRequest | PopupRequest | RedirectRequest\<close>: the request
  types overlap structurally; the controller reads the fields below. An optional field
  is an \<open>option\<close>; the empty string stays a value of its own, since the source's
  \<^verbatim>\<open>||\<close> and \<^verbatim>\<open>if (x)\<close> treat it as absent.
\<close>

record Request =
  account :: "AccountInfo option"
  correlationId :: "string option"
  authority :: "string option"
  scopes :: "string list option"
  claims :: "string option"

text \<open>
  Modelled from the spec: the entity and result types of msal-common / msal-browser
  (\<^verbatim>\<open>AccountEntity\<close>, \<^verbatim>\<open>AccessTokenEntity\<close>, \<^verbatim>\<open>IdTokenEntity\<close>,
  \<^verbatim>\<open>AuthenticationResult\<close>), whose declarations are not among the sources. The
  fields are those of section 3 of the specification and those the controller reads.
  Timestamps are seconds since the epoch.
\<close>

record AccountEntity =
  homeAccountId :: string
  environment :: string
  realm :: string
  username :: string
  localAccountId :: string
  cloudGraphHostName :: "string option"
  msGraphHost :: "string option"

record AccessTokenEntity =
  homeAccountId :: string
  environment :: string
  realm :: string
  target :: "string list"
  secret :: string
  cachedAt :: int
  expiresOn :: int

record IdTokenEntity =
  homeAccountId :: string
  environment :: string
  realm :: string
  secret :: string

record AuthenticationResult =
  authority :: string
  account :: AccountInfo
  tenantId :: string
  scopes :: "string list"
  accessToken :: string
  idToken :: string
  expiresOn :: int
  correlationId :: string
  requestId :: "string option"
  fromCache :: bool
  cloudGraphHostName :: "string option"
  msGraphHost :: "string option"

text \<open>
  Modelled from the spec: the wire shapes of the host bridge (\<^verbatim>\<open>naa/TokenRequest\<close>,
  \<^verbatim>\<open>naa/AuthResult\<close>, \<^verbatim>\<open>naa/AccountContext\<close>), an external contract the
  controller only passes through.
\<close>

record TokenRequest =
  clientId :: string
  authority :: "string option"
  scope :: "string list"
  correlationId :: "string option"
  claims :: "string option"

record AuthResult =
  account :: AccountInfo
  access_token :: string
  id_token :: string
  expires_in :: int
  scope :: "string list"

record AccountContext =
  homeAccountId :: string

text \<open>
  What a collaborator raises (\<^verbatim>\<open>catch (e)\<close> has type unknown in the source): a
  bridge error with its documented status and description, or any other exception.
  What the controller throws to its caller: an \<^verbatim>\<open>AuthError\<close> built by the adapter,
  or the error of \<^verbatim>\<open>NestedAppAuthError.createUnsupportedError()\<close>.
\<close>

datatype thrown = BridgeError string string | OtherException string

datatype AuthError = AuthError string string | UnsupportedError

definition createUnsupportedError :: AuthError where
  "createUnsupportedError = UnsupportedError"

subsection \<open>Events, measurements and the trace\<close>

datatype EventType = ACQUIRE_TOKEN_START | ACQUIRE_TOKEN_SUCCESS | ACQUIRE_TOKEN_FAILURE

datatype InteractionType = Popup | Silent

datatype PerformanceEvents = AcquireTokenPopup | SsoSilent | AcquireTokenSilent

datatype EventPayload =
    PayloadRequest Request
  | PayloadResult AuthenticationResult
  | PayloadNull

datatype measurement_field =
    nestedAppAuthRequest bool
  | visibilityChangeCount nat
  | accessTokenSize nat
  | idTokenSize nat

datatype bridge_method = GetTokenInteractive | GetTokenSilent

datatype storage_call =
    GetAccountByHomeId string
  | GetTokenKeys
  | GetAccessToken AccountInfo Request
  | GetIdToken AccountInfo
  | RemoveAccountContext AccountEntity
  | SetAccount AccountEntity
  | HydrateCache AuthenticationResult Request
  | SetActiveAccount "AccountInfo option"

datatype effect =
    EmitEvent EventType InteractionType EventPayload "thrown option"
  | StartMeasurement PerformanceEvents "string option"
  | MeasurementAdd PerformanceEvents "measurement_field list"
  | MeasurementIncrement PerformanceEvents "measurement_field list"
  | MeasurementEnd PerformanceEvents bool "string option" "thrown option"
  | BridgeCall bridge_method TokenRequest
  | StorageCall storage_call

record 's world =
  storage :: 's
  nowSeconds :: int
  guidsCreated :: nat
  trace :: "effect list"

subsection \<open>Collaborators\<close>

text \<open>
  The collaborators are not among the sources; the controller takes them as they are
  injected. \<open>'s\<close> is the type of the storage contents. A function that reads the clock
  takes the clock reading first; the clock does not advance during a call. The three
  steps that may raise are the bridge call, the conversion of its response, and the
  storage's token hydration; the last also returns the storage it leaves, whether it
  raised or not.
\<close>

type_synonym TokenKeys = "string list"

record 's BrowserCacheManager =
  getTokenKeys :: "'s \<Rightarrow> TokenKeys"
  getAccessToken ::
    "AccountInfo \<Rightarrow> Request \<Rightarrow> TokenKeys \<Rightarrow> string \<Rightarrow> string \<Rightarrow> 's \<Rightarrow> AccessTokenEntity option"
  getIdToken :: "AccountInfo \<Rightarrow> TokenKeys \<Rightarrow> string \<Rightarrow> string \<Rightarrow> 's \<Rightarrow> IdTokenEntity option"
  removeAccountContext :: "AccountEntity \<Rightarrow> 's \<Rightarrow> 's"
  setAccount :: "AccountEntity \<Rightarrow> 's \<Rightarrow> 's"
  setActiveAccount :: "AccountInfo option \<Rightarrow> 's \<Rightarrow> 's"
  hydrateCache ::
    "int \<Rightarrow> AuthenticationResult \<Rightarrow> Request \<Rightarrow> 's \<Rightarrow> (thrown + unit) \<times> 's"

record IBridgeProxy =
  getTokenInteractive :: "TokenRequest \<Rightarrow> thrown + AuthResult"
  getTokenSilent :: "TokenRequest \<Rightarrow> thrown + AuthResult"
  getAccountContext :: AccountContext

record ICrypto =
  createNewGuid :: "nat \<Rightarrow> string"

record NestedAppAuthAdapter =
  toNaaTokenRequest :: "Request \<Rightarrow> TokenRequest"
  fromNaaTokenResponse :: "TokenRequest \<Rightarrow> AuthResult \<Rightarrow> int \<Rightarrow> thrown + AuthenticationResult"
  fromCachedTokens ::
    "AccountInfo \<Rightarrow> IdTokenEntity \<Rightarrow> AccessTokenEntity \<Rightarrow> Request \<Rightarrow> string \<Rightarrow> AuthenticationResult"
  fromBridgeError :: "thrown \<Rightarrow> AuthError"

record BrowserConfiguration =
  tokenRenewalOffsetSeconds :: int

text \<open>
  The module-level imports of the controller: \<^verbatim>\<open>TimeUtils\<close>,
  \<^verbatim>\<open>AccountEntity.createFromAccountInfo\<close>, \<^verbatim>\<open>AccountManager.getAccountByHomeId\<close>
  and the constants \<^verbatim>\<open>OIDC_DEFAULT_SCOPES\<close> and \<^verbatim>\<open>DEFAULT_REQUEST\<close>.
\<close>

record 's Modules =
  wasClockTurnedBack :: "int \<Rightarrow> int \<Rightarrow> bool"
  isTokenExpired :: "int \<Rightarrow> int \<Rightarrow> int \<Rightarrow> bool"
  createFromAccountInfo :: "AccountInfo \<Rightarrow> string option \<Rightarrow> string option \<Rightarrow> AccountEntity"
  getAccountByHomeId :: "string \<Rightarrow> 's \<Rightarrow> AccountInfo option"
  OIDC_DEFAULT_SCOPES :: "string list"
  DEFAULT_REQUEST :: Request

record 's NestedAppAuthController =
  bridgeProxy :: IBridgeProxy
  browserCrypto :: ICrypto
  config :: BrowserConfiguration
  browserStorage :: "'s BrowserCacheManager"
  nestedAppAuthAdapter :: NestedAppAuthAdapter
  modules :: "'s Modules"

section \<open>The controller\<close>

subsection \<open>Primitive effects\<close>

definition perform :: "effect \<Rightarrow> 's world \<Rightarrow> 's world" where
  "perform e w = w\<lparr>trace := trace w @ [e]\<rparr>"

definition emitEvent ::
  "EventType \<Rightarrow> InteractionType \<Rightarrow> EventPayload \<Rightarrow> thrown option \<Rightarrow> 's world \<Rightarrow> 's world" where
  "emitEvent t i p e w = perform (EmitEvent t i p e) w"

definition newGuid :: "'s NestedAppAuthController \<Rightarrow> 's world \<Rightarrow> string \<times> 's world" where
  "newGuid this w =
     (createNewGuid (browserCrypto this) (guidsCreated w),
      w\<lparr>guidsCreated := Suc (guidsCreated w)\<rparr>)"

text \<open>\<^verbatim>\<open>this.browserStorage.setActiveAccount(account)\<close>, as a step on the world.\<close>

definition browserStorage_setActiveAccount ::
  "'s NestedAppAuthController \<Rightarrow> AccountInfo option \<Rightarrow> 's world \<Rightarrow> 's world" where
  "browserStorage_setActiveAccount this a w =
     perform (StorageCall (SetActiveAccount a))
       (w\<lparr>storage := setActiveAccount (browserStorage this) a (storage w)\<rparr>)"

text \<open>JavaScript truthiness of an optional string: defined and not empty.\<close>

definition truthy :: "string option \<Rightarrow> bool" where
  "truthy s = (case s of None \<Rightarrow> False | Some v \<Rightarrow> v \<noteq> [])"

subsection \<open>ensureValidRequest (lines 172-186)\<close>

definition ensureValidRequest ::
  "'s NestedAppAuthController \<Rightarrow> Request \<Rightarrow> 's world \<Rightarrow> Request \<times> 's world" where
  "ensureValidRequest this request w =
     (if truthy (Request.correlationId request) then (request, w)
      else (let (g, w') = newGuid this w
            in (request\<lparr>Request.correlationId := Some g\<rparr>, w')))"

subsection \<open>hydrateCache (lines 808-826)\<close>

definition hydrateCache ::
  "'s NestedAppAuthController \<Rightarrow> AuthenticationResult \<Rightarrow> Request \<Rightarrow> 's world
     \<Rightarrow> (thrown + unit) \<times> 's world" where
  "hydrateCache this result request w =
     (let accountEntity =
            createFromAccountInfo (modules this) (AuthenticationResult.account result)
              (AuthenticationResult.cloudGraphHostName result)
              (AuthenticationResult.msGraphHost result);
          w1 = perform (StorageCall (SetAccount accountEntity))
                 (w\<lparr>storage := setAccount (browserStorage this) accountEntity (storage w)\<rparr>);
          w2 = perform (StorageCall (HydrateCache result request)) w1
      in case BrowserCacheManager.hydrateCache (browserStorage this) (nowSeconds w2) result
                request (storage w2) of
           (outcome, s) \<Rightarrow> (outcome, w2\<lparr>storage := s\<rparr>))"

text \<open>
  The two statements both flows run on a converted result (lines 226-228 and 321-323):
  \<^verbatim>\<open>await this.hydrateCache(result, request)\<close> and then
  \<^verbatim>\<open>this.browserStorage.setActiveAccount(result.account)\<close>; the world they leave.
\<close>

definition hydrateCache_then_setActiveAccount ::
  "'s NestedAppAuthController \<Rightarrow> AuthenticationResult \<Rightarrow> Request \<Rightarrow> 's world \<Rightarrow> 's world" where
  "hydrateCache_then_setActiveAccount this result request w =
     browserStorage_setActiveAccount this (Some (AuthenticationResult.account result))
       (snd (hydrateCache this result request w))"

subsection \<open>acquireTokenFromCacheInternal (lines 412-493)\<close>

text \<open>\<^verbatim>\<open>request.account || cachedAccount\<close> (line 420).\<close>

definition currentAccountOf ::
  "'s NestedAppAuthController \<Rightarrow> Request \<Rightarrow> 's \<Rightarrow> AccountInfo option" where
  "currentAccountOf this request s =
     (let cachedAccount =
            getAccountByHomeId (modules this)
              (AccountContext.homeAccountId (getAccountContext (bridgeProxy this))) s
      in case Request.account request of Some a \<Rightarrow> Some a | None \<Rightarrow> cachedAccount)"

text \<open>The object literal \<^verbatim>\<open>authRequest\<close> (lines 431-439), given the correlation id.\<close>

definition authRequestOf ::
  "'s NestedAppAuthController \<Rightarrow> AccountInfo \<Rightarrow> Request \<Rightarrow> string \<Rightarrow> Request" where
  "authRequestOf this currentAccount request cid =
     request\<lparr>Request.correlationId := Some cid,
             Request.authority :=
               Some (case Request.authority request of
                       None \<Rightarrow> AccountInfo.environment currentAccount
                     | Some a \<Rightarrow> if a \<noteq> [] then a else AccountInfo.environment currentAccount),
             Request.scopes :=
               Some (case Request.scopes request of
                       None \<Rightarrow> OIDC_DEFAULT_SCOPES (modules this)
                     | Some ss \<Rightarrow> if length ss \<noteq> 0 then ss
                                 else OIDC_DEFAULT_SCOPES (modules this))\<rparr>"

text \<open>
  \<^verbatim>\<open>request.correlationId || this.browserCrypto.createNewGuid()\<close> (lines 433-434).
\<close>

definition correlationIdOr ::
  "'s NestedAppAuthController \<Rightarrow> Request \<Rightarrow> 's world \<Rightarrow> string \<times> 's world" where
  "correlationIdOr this request w =
     (case Request.correlationId request of
        None \<Rightarrow> newGuid this w
      | Some c \<Rightarrow> if c \<noteq> [] then (c, w) else newGuid this w)"

definition acquireTokenFromCacheInternal ::
  "'s NestedAppAuthController \<Rightarrow> Request \<Rightarrow> 's world
     \<Rightarrow> AuthenticationResult option \<times> 's world" where
  "acquireTokenFromCacheInternal this request w0 =
     (let w1 = perform (StorageCall (GetAccountByHomeId
                  (AccountContext.homeAccountId (getAccountContext (bridgeProxy this))))) w0
      in case currentAccountOf this request (storage w0) of
           None \<Rightarrow> (None, w1)
         | Some currentAccount \<Rightarrow>
            (let (cid, w2) = correlationIdOr this request w1;
                 authRequest = authRequestOf this currentAccount request cid;
                 tokenKeys = getTokenKeys (browserStorage this) (storage w2);
                 w3 = perform (StorageCall GetTokenKeys) w2;
                 cachedAccessToken =
                   getAccessToken (browserStorage this) currentAccount authRequest tokenKeys
                     (AccountInfo.tenantId currentAccount) cid (storage w3);
                 w4 = perform (StorageCall (GetAccessToken currentAccount authRequest)) w3
             in case cachedAccessToken of
                  None \<Rightarrow> (None, w4)
                | Some at \<Rightarrow>
                   if wasClockTurnedBack (modules this) (nowSeconds w4)
                        (AccessTokenEntity.cachedAt at)
                      \<or> isTokenExpired (modules this) (nowSeconds w4)
                          (AccessTokenEntity.expiresOn at)
                          (tokenRenewalOffsetSeconds (config this))
                   then
                     (let accountEntity =
                            createFromAccountInfo (modules this) currentAccount None None
                      in (None,
                          perform (StorageCall (RemoveAccountContext accountEntity))
                            (w4\<lparr>storage := removeAccountContext (browserStorage this)
                                              accountEntity (storage w4)\<rparr>)))
                   else
                     (let cachedIdToken =
                            getIdToken (browserStorage this) currentAccount tokenKeys
                              (AccountInfo.tenantId currentAccount) cid (storage w4);
                          w5 = perform (StorageCall (GetIdToken currentAccount)) w4
                      in case cachedIdToken of
                           None \<Rightarrow> (None, w5)
                         | Some idt \<Rightarrow>
                            (Some (fromCachedTokens (nestedAppAuthAdapter this) currentAccount
                                     idt at authRequest cid),
                             w5))))"

subsection \<open>acquireTokenFromCache (lines 361-405)\<close>

definition acquireTokenFromCache ::
  "'s NestedAppAuthController \<Rightarrow> Request \<Rightarrow> 's world
     \<Rightarrow> AuthenticationResult option \<times> 's world" where
  "acquireTokenFromCache this request w0 =
     (let w1 = perform (StartMeasurement AcquireTokenSilent (Request.correlationId request)) w0;
          w2 = perform (MeasurementAdd AcquireTokenSilent [nestedAppAuthRequest True]) w1;
          (result, w3) = acquireTokenFromCacheInternal this request w2
      in case result of
           Some r \<Rightarrow>
             (let w4 = emitEvent ACQUIRE_TOKEN_SUCCESS Silent (PayloadResult r) None w3;
                  w5 = perform (MeasurementAdd AcquireTokenSilent
                         [accessTokenSize (length (accessToken r)),
                          idTokenSize (length (idToken r))]) w4;
                  w6 = perform (MeasurementEnd AcquireTokenSilent True None None) w5
              in (Some r, w6))
         | None \<Rightarrow>
             (let w4 = emitEvent ACQUIRE_TOKEN_FAILURE Silent PayloadNull None w3;
                  w5 = perform (MeasurementEnd AcquireTokenSilent False None None) w4
              in (None, w5)))"

subsection \<open>acquireTokenInteractive (lines 193-264)\<close>

text \<open>The body of the \<^verbatim>\<open>try\<close> block (lines 212-245).\<close>

definition acquireTokenInteractive_try ::
  "'s NestedAppAuthController \<Rightarrow> Request \<Rightarrow> Request \<Rightarrow> 's world
     \<Rightarrow> (thrown + AuthenticationResult) \<times> 's world" where
  "acquireTokenInteractive_try this request validRequest w0 =
     (let naaRequest = toNaaTokenRequest (nestedAppAuthAdapter this) validRequest;
          reqTimestamp = nowSeconds w0;
          w1 = perform (BridgeCall GetTokenInteractive naaRequest) w0
      in case getTokenInteractive (bridgeProxy this) naaRequest of
           Inl e \<Rightarrow> (Inl e, w1)
         | Inr response \<Rightarrow>
            (case fromNaaTokenResponse (nestedAppAuthAdapter this) naaRequest response
                    reqTimestamp of
               Inl e \<Rightarrow> (Inl e, w1)
             | Inr result \<Rightarrow>
                (case hydrateCache this result request w1 of
                   (Inl e, w2) \<Rightarrow> (Inl e, w2)
                 | (Inr u, w2) \<Rightarrow>
                    (let w3 = browserStorage_setActiveAccount this
                                (Some (AuthenticationResult.account result)) w2;
                         w4 = emitEvent ACQUIRE_TOKEN_SUCCESS Popup (PayloadResult result)
                                None w3;
                         w5 = perform (MeasurementAdd AcquireTokenPopup
                                [accessTokenSize (length (accessToken result)),
                                 idTokenSize (length (idToken result))]) w4;
                         w6 = perform (MeasurementEnd AcquireTokenPopup True
                                (requestId result) None) w5
                     in (Inr result, w6)))))"

definition acquireTokenInteractive ::
  "'s NestedAppAuthController \<Rightarrow> Request \<Rightarrow> 's world
     \<Rightarrow> (AuthError + AuthenticationResult) \<times> 's world" where
  "acquireTokenInteractive this request w0 =
     (let (validRequest, w1) = ensureValidRequest this request w0;
          w2 = emitEvent ACQUIRE_TOKEN_START Popup (PayloadRequest validRequest) None w1;
          w3 = perform (StartMeasurement AcquireTokenPopup
                 (Request.correlationId validRequest)) w2;
          w4 = perform (MeasurementAdd AcquireTokenPopup [nestedAppAuthRequest True]) w3
      in case acquireTokenInteractive_try this request validRequest w4 of
           (Inr result, w5) \<Rightarrow> (Inr result, w5)
         | (Inl e, w5) \<Rightarrow>
            (let error = fromBridgeError (nestedAppAuthAdapter this) e;
                 w6 = emitEvent ACQUIRE_TOKEN_FAILURE Popup PayloadNull (Some e) w5;
                 w7 = perform (MeasurementEnd AcquireTokenPopup False None (Some e)) w6
             in (Inl error, w7)))"

subsection \<open>acquireTokenSilentInternal (lines 271-354)\<close>

text \<open>The body of the \<^verbatim>\<open>try\<close> block (lines 308-337).\<close>

definition acquireTokenSilentInternal_try ::
  "'s NestedAppAuthController \<Rightarrow> Request \<Rightarrow> Request \<Rightarrow> 's world
     \<Rightarrow> (thrown + AuthenticationResult) \<times> 's world" where
  "acquireTokenSilentInternal_try this request validRequest w0 =
     (let naaRequest = toNaaTokenRequest (nestedAppAuthAdapter this) validRequest;
          reqTimestamp = nowSeconds w0;
          w1 = perform (BridgeCall GetTokenSilent naaRequest) w0
      in case getTokenSilent (bridgeProxy this) naaRequest of
           Inl e \<Rightarrow> (Inl e, w1)
         | Inr response \<Rightarrow>
            (case fromNaaTokenResponse (nestedAppAuthAdapter this) naaRequest response
                    reqTimestamp of
               Inl e \<Rightarrow> (Inl e, w1)
             | Inr result \<Rightarrow>
                (case hydrateCache this result request w1 of
                   (Inl e, w2) \<Rightarrow> (Inl e, w2)
                 | (Inr u, w2) \<Rightarrow>
                    (let w3 = browserStorage_setActiveAccount this
                                (Some (AuthenticationResult.account result)) w2;
                         w4 = emitEvent ACQUIRE_TOKEN_SUCCESS Silent (PayloadResult result)
                                None w3;
                         w5 = perform (MeasurementAdd SsoSilent
                                [accessTokenSize (length (accessToken result)),
                                 idTokenSize (length (idToken result))]) w4;
                         w6 = perform (MeasurementEnd SsoSilent True
                                (requestId result) None) w5
                     in (Inr result, w6)))))"

definition acquireTokenSilentInternal ::
  "'s NestedAppAuthController \<Rightarrow> Request \<Rightarrow> 's world
     \<Rightarrow> (AuthError + AuthenticationResult) \<times> 's world" where
  "acquireTokenSilentInternal this request w0 =
     (let (validRequest, w1) = ensureValidRequest this request w0;
          w2 = emitEvent ACQUIRE_TOKEN_START Silent (PayloadRequest validRequest) None w1
      in case acquireTokenFromCache this validRequest w2 of
           (Some result, w3) \<Rightarrow>
             (Inr result, emitEvent ACQUIRE_TOKEN_SUCCESS Silent (PayloadResult result) None w3)
         | (None, w3) \<Rightarrow>
            (let w4 = perform (StartMeasurement SsoSilent
                        (Request.correlationId validRequest)) w3;
                 w5 = perform (MeasurementIncrement SsoSilent [visibilityChangeCount 0]) w4;
                 w6 = perform (MeasurementAdd SsoSilent [nestedAppAuthRequest True]) w5
             in case acquireTokenSilentInternal_try this request validRequest w6 of
                  (Inr result, w7) \<Rightarrow> (Inr result, w7)
                | (Inl e, w7) \<Rightarrow>
                   (let error = fromBridgeError (nestedAppAuthAdapter this) e;
                        w8 = emitEvent ACQUIRE_TOKEN_FAILURE Silent PayloadNull (Some e) w7;
                        w9 = perform (MeasurementEnd SsoSilent False None (Some e)) w8
                    in (Inl error, w9))))"

subsection \<open>The public entry points\<close>

definition acquireTokenPopup ::
  "'s NestedAppAuthController \<Rightarrow> Request \<Rightarrow> 's world
     \<Rightarrow> (AuthError + AuthenticationResult) \<times> 's world" where
  "acquireTokenPopup this request w = acquireTokenInteractive this request w"

definition acquireTokenSilent ::
  "'s NestedAppAuthController \<Rightarrow> Request \<Rightarrow> 's world
     \<Rightarrow> (AuthError + AuthenticationResult) \<times> 's world" where
  "acquireTokenSilent this silentRequest w = acquireTokenSilentInternal this silentRequest w"

definition ssoSilent ::
  "'s NestedAppAuthController \<Rightarrow> Request \<Rightarrow> 's world
     \<Rightarrow> (AuthError + AuthenticationResult) \<times> 's world" where
  "ssoSilent this request w = acquireTokenSilentInternal this request w"

definition loginPopup ::
  "'s NestedAppAuthController \<Rightarrow> Request option \<Rightarrow> 's world
     \<Rightarrow> (AuthError + AuthenticationResult) \<times> 's world" where
  "loginPopup this request w =
     acquireTokenInteractive this
       (case request of Some r \<Rightarrow> r | None \<Rightarrow> DEFAULT_REQUEST (modules this)) w"

subsection \<open>Operations that are not supported in nested app auth\<close>

text \<open>
  Each of these bodies is the single statement
  \<^verbatim>\<open>throw NestedAppAuthError.createUnsupportedError()\<close>. Arguments of types that are
  not among the sources are kept as arguments of an arbitrary type. \<^verbatim>\<open>clearCache\<close> is
  declared \<^verbatim>\<open>async\<close>, so its error reaches the caller as a rejected promise, where
  the others throw synchronously; both are the left injection here.
\<close>

definition acquireTokenRedirect ::
  "'s NestedAppAuthController \<Rightarrow> Request \<Rightarrow> 's world \<Rightarrow> (AuthError + unit) \<times> 's world" where
  "acquireTokenRedirect this request w = (Inl createUnsupportedError, w)"

definition acquireTokenByCode ::
  "'s NestedAppAuthController \<Rightarrow> 'r \<Rightarrow> 's world
     \<Rightarrow> (AuthError + AuthenticationResult) \<times> 's world" where
  "acquireTokenByCode this request w = (Inl createUnsupportedError, w)"

definition acquireTokenNative ::
  "'s NestedAppAuthController \<Rightarrow> Request \<Rightarrow> 'i \<Rightarrow> string option \<Rightarrow> 's world
     \<Rightarrow> (AuthError + AuthenticationResult) \<times> 's world" where
  "acquireTokenNative this request apiId accountId w = (Inl createUnsupportedError, w)"

definition acquireTokenByRefreshToken ::
  "'s NestedAppAuthController \<Rightarrow> 'c \<Rightarrow> Request \<Rightarrow> 's world
     \<Rightarrow> (AuthError + AuthenticationResult) \<times> 's world" where
  "acquireTokenByRefreshToken this commonRequest silentRequest w =
     (Inl createUnsupportedError, w)"

definition addPerformanceCallback ::
  "'s NestedAppAuthController \<Rightarrow> 'f \<Rightarrow> 's world \<Rightarrow> (AuthError + string) \<times> 's world" where
  "addPerformanceCallback this callback w = (Inl createUnsupportedError, w)"

definition removePerformanceCallback ::
  "'s NestedAppAuthController \<Rightarrow> string \<Rightarrow> 's world \<Rightarrow> (AuthError + bool) \<times> 's world" where
  "removePerformanceCallback this callbackId w = (Inl createUnsupportedError, w)"

definition enableAccountStorageEvents ::
  "'s NestedAppAuthController \<Rightarrow> 's world \<Rightarrow> (AuthError + unit) \<times> 's world" where
  "enableAccountStorageEvents this w = (Inl createUnsupportedError, w)"

definition disableAccountStorageEvents ::
  "'s NestedAppAuthController \<Rightarrow> 's world \<Rightarrow> (AuthError + unit) \<times> 's world" where
  "disableAccountStorageEvents this w = (Inl createUnsupportedError, w)"

definition loginRedirect ::
  "'s NestedAppAuthController \<Rightarrow> Request option \<Rightarrow> 's world
     \<Rightarrow> (AuthError + unit) \<times> 's world" where
  "loginRedirect this request w = (Inl createUnsupportedError, w)"

definition logout ::
  "'s NestedAppAuthController \<Rightarrow> 'l option \<Rightarrow> 's world \<Rightarrow> (AuthError + unit) \<times> 's world" where
  "logout this logoutRequest w = (Inl createUnsupportedError, w)"

definition logoutRedirect ::
  "'s NestedAppAuthController \<Rightarrow> 'l option \<Rightarrow> 's world \<Rightarrow> (AuthError + unit) \<times> 's world" where
  "logoutRedirect this logoutRequest w = (Inl createUnsupportedError, w)"

definition logoutPopup ::
  "'s NestedAppAuthController \<Rightarrow> 'l option \<Rightarrow> 's world \<Rightarrow> (AuthError + unit) \<times> 's world" where
  "logoutPopup this logoutRequest w = (Inl createUnsupportedError, w)"

definition getTokenCache ::
  "'s NestedAppAuthController \<Rightarrow> 's world \<Rightarrow> (AuthError + unit) \<times> 's world" where
  "getTokenCache this w = (Inl createUnsupportedError, w)"

definition getPerformanceClient ::
  "'s NestedAppAuthController \<Rightarrow> 's world \<Rightarrow> (AuthError + unit) \<times> 's world" where
  "getPerformanceClient this w = (Inl createUnsupportedError, w)"

definition getRedirectResponse ::
  "'s NestedAppAuthController \<Rightarrow> 's world \<Rightarrow> (AuthError + unit) \<times> 's world" where
  "getRedirectResponse this w = (Inl createUnsupportedError, w)"

definition clearCache ::
  "'s NestedAppAuthController \<Rightarrow> 'l option \<Rightarrow> 's world \<Rightarrow> (AuthError + unit) \<times> 's world" where
  "clearCache this logoutRequest w = (Inl createUnsupportedError, w)"

section \<open>The collaborators as the specification describes them\<close>

text \<open>
  The storage engine, the adapter, the time utilities and the crypto provider are
  outside the sources. This section gives one instance of each, following sections 3,
  4 and 6 of the specification; the instance is what the idempotence of hydration is
  settled on, and what every concrete run below is evaluated with.
\<close>

subsection \<open>Storage\<close>

text \<open>
  Modelled from the spec: the contents of the browser storage
  (\<^verbatim>\<open>cache/BrowserCacheManager\<close>): stored accounts, stored access and id tokens, and
  the single active account.
\<close>

record Storage =
  accountEntities :: "AccountEntity list"
  accessTokenEntities :: "AccessTokenEntity list"
  idTokenEntities :: "IdTokenEntity list"
  activeAccount :: "AccountInfo option"

text \<open>Modelled from the spec: \<^verbatim>\<open>AccountEntity.createFromAccountInfo\<close> (section 4.4).\<close>

definition spec_createFromAccountInfo ::
  "AccountInfo \<Rightarrow> string option \<Rightarrow> string option \<Rightarrow> AccountEntity" where
  "spec_createFromAccountInfo a cloudGraph msGraph =
     \<lparr>AccountEntity.homeAccountId = AccountInfo.homeAccountId a,
      AccountEntity.environment = AccountInfo.environment a,
      AccountEntity.realm = AccountInfo.tenantId a,
      AccountEntity.username = AccountInfo.username a,
      AccountEntity.localAccountId = AccountInfo.localAccountId a,
      AccountEntity.cloudGraphHostName = cloudGraph,
      AccountEntity.msGraphHost = msGraph\<rparr>"

definition getAccountInfo :: "AccountEntity \<Rightarrow> AccountInfo" where
  "getAccountInfo e =
     \<lparr>AccountInfo.homeAccountId = AccountEntity.homeAccountId e,
      AccountInfo.environment = AccountEntity.environment e,
      AccountInfo.tenantId = AccountEntity.realm e,
      AccountInfo.username = AccountEntity.username e,
      AccountInfo.localAccountId = AccountEntity.localAccountId e\<rparr>"

text \<open>
  Modelled from the spec: \<^verbatim>\<open>AccountManager.getAccountByHomeId\<close> (section 4.1: the
  account matching the bridge-reported home identifier in local storage).
\<close>

definition spec_getAccountByHomeId :: "string \<Rightarrow> Storage \<Rightarrow> AccountInfo option" where
  "spec_getAccountByHomeId hid s =
     map_option getAccountInfo
       (find (\<lambda>e. AccountEntity.homeAccountId e = hid) (accountEntities s))"

text \<open>
  Modelled from the spec: the storage interface of section 6
  (\<^verbatim>\<open>BrowserCacheManager\<close>). Token lookup is by account, environment and tenant,
  with scope-superset matching for access tokens, first candidate wins (section 4.2).
  \<^verbatim>\<open>removeAccountContext\<close> purges the account's tokens and metadata (section 4.2,
  step 5). \<^verbatim>\<open>setAccount\<close> is an upsert (section 4.4). \<^verbatim>\<open>hydrateCache\<close> persists
  the id token and the access token of a result, the latter under the requested scopes
  (section 4.4), stamped with the clock reading.
\<close>

definition spec_getTokenKeys :: "Storage \<Rightarrow> TokenKeys" where
  "spec_getTokenKeys s =
     map AccessTokenEntity.homeAccountId (accessTokenEntities s)
     @ map IdTokenEntity.homeAccountId (idTokenEntities s)"

definition spec_getAccessToken ::
  "AccountInfo \<Rightarrow> Request \<Rightarrow> TokenKeys \<Rightarrow> string \<Rightarrow> string \<Rightarrow> Storage
     \<Rightarrow> AccessTokenEntity option" where
  "spec_getAccessToken a request keys tenant cid s =
     find (\<lambda>t. AccessTokenEntity.homeAccountId t = AccountInfo.homeAccountId a
              \<and> AccessTokenEntity.environment t = AccountInfo.environment a
              \<and> AccessTokenEntity.realm t = tenant
              \<and> list_all (\<lambda>sc. sc \<in> set (AccessTokenEntity.target t))
                   (case Request.scopes request of None \<Rightarrow> [] | Some ss \<Rightarrow> ss))
          (accessTokenEntities s)"

definition spec_getIdToken ::
  "AccountInfo \<Rightarrow> TokenKeys \<Rightarrow> string \<Rightarrow> string \<Rightarrow> Storage \<Rightarrow> IdTokenEntity option" where
  "spec_getIdToken a keys tenant cid s =
     find (\<lambda>t. IdTokenEntity.homeAccountId t = AccountInfo.homeAccountId a
              \<and> IdTokenEntity.environment t = AccountInfo.environment a
              \<and> IdTokenEntity.realm t = tenant)
          (idTokenEntities s)"

definition spec_removeAccountContext :: "AccountEntity \<Rightarrow> Storage \<Rightarrow> Storage" where
  "spec_removeAccountContext e s =
     s\<lparr>accountEntities :=
         filter (\<lambda>x. \<not> (AccountEntity.homeAccountId x = AccountEntity.homeAccountId e
                       \<and> AccountEntity.environment x = AccountEntity.environment e))
           (accountEntities s),
       accessTokenEntities :=
         filter (\<lambda>t. \<not> (AccessTokenEntity.homeAccountId t = AccountEntity.homeAccountId e
                       \<and> AccessTokenEntity.environment t = AccountEntity.environment e))
           (accessTokenEntities s),
       idTokenEntities :=
         filter (\<lambda>t. \<not> (IdTokenEntity.homeAccountId t = AccountEntity.homeAccountId e
                       \<and> IdTokenEntity.environment t = AccountEntity.environment e))
           (idTokenEntities s)\<rparr>"

definition spec_setAccount :: "AccountEntity \<Rightarrow> Storage \<Rightarrow> Storage" where
  "spec_setAccount e s =
     s\<lparr>accountEntities :=
         e # filter (\<lambda>x. \<not> (AccountEntity.homeAccountId x = AccountEntity.homeAccountId e
                           \<and> AccountEntity.environment x = AccountEntity.environment e
                           \<and> AccountEntity.realm x = AccountEntity.realm e))
               (accountEntities s)\<rparr>"

definition spec_setActiveAccount :: "AccountInfo option \<Rightarrow> Storage \<Rightarrow> Storage" where
  "spec_setActiveAccount a s = s\<lparr>activeAccount := a\<rparr>"

definition idTokenEntityOf :: "AuthenticationResult \<Rightarrow> IdTokenEntity" where
  "idTokenEntityOf r =
     \<lparr>IdTokenEntity.homeAccountId =
        AccountInfo.homeAccountId (AuthenticationResult.account r),
      IdTokenEntity.environment = AccountInfo.environment (AuthenticationResult.account r),
      IdTokenEntity.realm = AuthenticationResult.tenantId r,
      IdTokenEntity.secret = idToken r\<rparr>"

definition accessTokenEntityOf ::
  "int \<Rightarrow> AuthenticationResult \<Rightarrow> Request \<Rightarrow> AccessTokenEntity" where
  "accessTokenEntityOf now r request =
     \<lparr>AccessTokenEntity.homeAccountId =
        AccountInfo.homeAccountId (AuthenticationResult.account r),
      AccessTokenEntity.environment =
        AccountInfo.environment (AuthenticationResult.account r),
      AccessTokenEntity.realm = AuthenticationResult.tenantId r,
      AccessTokenEntity.target =
        (case Request.scopes request of
           None \<Rightarrow> AuthenticationResult.scopes r
         | Some ss \<Rightarrow> if ss = [] then AuthenticationResult.scopes r else ss),
      AccessTokenEntity.secret = accessToken r,
      AccessTokenEntity.cachedAt = now,
      AccessTokenEntity.expiresOn = AuthenticationResult.expiresOn r\<rparr>"

definition spec_hydrateCache ::
  "int \<Rightarrow> AuthenticationResult \<Rightarrow> Request \<Rightarrow> Storage \<Rightarrow> (thrown + unit) \<times> Storage" where
  "spec_hydrateCache now r request s =
     (let idt = idTokenEntityOf r;
          at = accessTokenEntityOf now r request
      in (Inr (),
          s\<lparr>idTokenEntities :=
                  idt # filter (\<lambda>t. \<not> (IdTokenEntity.homeAccountId t
                                          = IdTokenEntity.homeAccountId idt
                                        \<and> IdTokenEntity.environment t
                                          = IdTokenEntity.environment idt
                                        \<and> IdTokenEntity.realm t = IdTokenEntity.realm idt))
                          (idTokenEntities s),
                accessTokenEntities :=
                  at # filter (\<lambda>t. \<not> (AccessTokenEntity.homeAccountId t
                                         = AccessTokenEntity.homeAccountId at
                                       \<and> AccessTokenEntity.environment t
                                         = AccessTokenEntity.environment at
                                       \<and> AccessTokenEntity.realm t
                                         = AccessTokenEntity.realm at
                                       \<and> AccessTokenEntity.target t
                                         = AccessTokenEntity.target at))
                         (accessTokenEntities s)\<rparr>))"

definition spec_storage :: "Storage BrowserCacheManager" where
  "spec_storage =
     \<lparr>getTokenKeys = spec_getTokenKeys,
      getAccessToken = spec_getAccessToken,
      getIdToken = spec_getIdToken,
      removeAccountContext = spec_removeAccountContext,
      setAccount = spec_setAccount,
      setActiveAccount = spec_setActiveAccount,
      hydrateCache = spec_hydrateCache\<rparr>"

subsection \<open>Time, constants, crypto\<close>

text \<open>
  Modelled from the spec: \<^verbatim>\<open>TimeUtils.wasClockTurnedBack\<close> and
  \<^verbatim>\<open>TimeUtils.isTokenExpired\<close> of msal-common (section 3: a token is usable only if
  its cached-at time is not after the current time, and the current time is strictly
  before its expiry minus the renewal offset).
\<close>

definition spec_wasClockTurnedBack :: "int \<Rightarrow> int \<Rightarrow> bool" where
  "spec_wasClockTurnedBack now cachedAtSec = (cachedAtSec > now)"

definition spec_isTokenExpired :: "int \<Rightarrow> int \<Rightarrow> int \<Rightarrow> bool" where
  "spec_isTokenExpired now expiresOnSec offset = (now \<ge> expiresOnSec - offset)"

text \<open>
  Modelled from the spec: the constants \<^verbatim>\<open>OIDC_DEFAULT_SCOPES\<close> (the standard OIDC
  minimum set) and \<^verbatim>\<open>DEFAULT_REQUEST\<close>.
\<close>

definition spec_OIDC_DEFAULT_SCOPES :: "string list" where
  "spec_OIDC_DEFAULT_SCOPES = [''openid'', ''profile'', ''offline_access'']"

definition spec_DEFAULT_REQUEST :: Request where
  "spec_DEFAULT_REQUEST =
     \<lparr>Request.account = None, Request.correlationId = None, Request.authority = None,
      Request.scopes = Some spec_OIDC_DEFAULT_SCOPES, Request.claims = None\<rparr>"

definition spec_modules :: "Storage Modules" where
  "spec_modules =
     \<lparr>wasClockTurnedBack = spec_wasClockTurnedBack,
      isTokenExpired = spec_isTokenExpired,
      createFromAccountInfo = spec_createFromAccountInfo,
      getAccountByHomeId = spec_getAccountByHomeId,
      OIDC_DEFAULT_SCOPES = spec_OIDC_DEFAULT_SCOPES,
      DEFAULT_REQUEST = spec_DEFAULT_REQUEST\<rparr>"

text \<open>
  Modelled from the spec: \<^verbatim>\<open>ICrypto.createNewGuid\<close>. The random source is replaced
  by a deterministic one: the n-th identifier handed out is \<open>g\<close> followed by n zeros,
  so identifiers are non-empty and pairwise distinct.
\<close>

definition spec_crypto :: ICrypto where
  "spec_crypto = \<lparr>createNewGuid = (\<lambda>n. CHR ''g'' # replicate n (CHR ''0''))\<rparr>"

subsection \<open>Adapter\<close>

text \<open>
  Modelled from the spec: \<^verbatim>\<open>NestedAppAuthAdapter\<close> (section 4.3). The outbound
  request copies the fields of the normalized request; the conversion of a response
  rejects one without tokens (a malformed response) and otherwise builds the result
  from the response, the request's correlation identifier and the request timestamp;
  a result from cached tokens is built from the account, the two tokens and the
  normalized request; the error mapping is pure.
\<close>

definition spec_toNaaTokenRequest :: "string \<Rightarrow> Request \<Rightarrow> TokenRequest" where
  "spec_toNaaTokenRequest client request =
     \<lparr>TokenRequest.clientId = client,
      TokenRequest.authority = Request.authority request,
      TokenRequest.scope = (case Request.scopes request of None \<Rightarrow> [] | Some ss \<Rightarrow> ss),
      TokenRequest.correlationId = Request.correlationId request,
      TokenRequest.claims = Request.claims request\<rparr>"

definition spec_fromNaaTokenResponse ::
  "TokenRequest \<Rightarrow> AuthResult \<Rightarrow> int \<Rightarrow> thrown + AuthenticationResult" where
  "spec_fromNaaTokenResponse naaRequest response reqTimestamp =
     (if id_token response = [] \<or> access_token response = []
      then Inl (OtherException ''null_or_empty_token'')
      else Inr
        \<lparr>AuthenticationResult.authority =
           (case TokenRequest.authority naaRequest of
              None \<Rightarrow> AccountInfo.environment (AuthResult.account response)
            | Some a \<Rightarrow> a),
         AuthenticationResult.account = AuthResult.account response,
         AuthenticationResult.tenantId = AccountInfo.tenantId (AuthResult.account response),
         AuthenticationResult.scopes = AuthResult.scope response,
         accessToken = access_token response,
         idToken = id_token response,
         AuthenticationResult.expiresOn = reqTimestamp + expires_in response,
         AuthenticationResult.correlationId =
           (case TokenRequest.correlationId naaRequest of None \<Rightarrow> [] | Some c \<Rightarrow> c),
         requestId = None,
         fromCache = False,
         AuthenticationResult.cloudGraphHostName = None,
         AuthenticationResult.msGraphHost = None\<rparr>)"

definition spec_fromCachedTokens ::
  "AccountInfo \<Rightarrow> IdTokenEntity \<Rightarrow> AccessTokenEntity \<Rightarrow> Request \<Rightarrow> string
     \<Rightarrow> AuthenticationResult" where
  "spec_fromCachedTokens a idt at request cid =
     \<lparr>AuthenticationResult.authority =
        (case Request.authority request of None \<Rightarrow> AccountInfo.environment a | Some x \<Rightarrow> x),
      AuthenticationResult.account = a,
      AuthenticationResult.tenantId = AccountInfo.tenantId a,
      AuthenticationResult.scopes = AccessTokenEntity.target at,
      accessToken = AccessTokenEntity.secret at,
      idToken = IdTokenEntity.secret idt,
      AuthenticationResult.expiresOn = AccessTokenEntity.expiresOn at,
      AuthenticationResult.correlationId = cid,
      requestId = None,
      fromCache = True,
      AuthenticationResult.cloudGraphHostName = None,
      AuthenticationResult.msGraphHost = None\<rparr>"

definition spec_fromBridgeError :: "thrown \<Rightarrow> AuthError" where
  "spec_fromBridgeError e =
     (case e of
        BridgeError status description \<Rightarrow> AuthError status description
      | OtherException message \<Rightarrow> AuthError ''unknown_error'' message)"

definition spec_adapter :: "string \<Rightarrow> NestedAppAuthAdapter" where
  "spec_adapter client =
     \<lparr>toNaaTokenRequest = spec_toNaaTokenRequest client,
      fromNaaTokenResponse = spec_fromNaaTokenResponse,
      fromCachedTokens = spec_fromCachedTokens,
      fromBridgeError = spec_fromBridgeError\<rparr>"

text \<open>
  The controller over these collaborators, for a given host bridge, client id and
  renewal offset.
\<close>

definition spec_controller ::
  "IBridgeProxy \<Rightarrow> string \<Rightarrow> int \<Rightarrow> Storage NestedAppAuthController" where
  "spec_controller bridge client offset =
     \<lparr>bridgeProxy = bridge,
      browserCrypto = spec_crypto,
      config = \<lparr>tokenRenewalOffsetSeconds = offset\<rparr>,
      browserStorage = spec_storage,
      nestedAppAuthAdapter = spec_adapter client,
      modules = spec_modules\<rparr>"

section \<open>Reading the trace\<close>

text \<open>
  The effects a call added to the trace, and the kinds of effect the properties below
  speak about: calls on the host bridge, storage calls that write, storage calls that
  read tokens, and emitted events.
\<close>

definition newEffects :: "'s world \<Rightarrow> 's world \<Rightarrow> effect list" where
  "newEffects w w' = drop (length (trace w)) (trace w')"

fun isBridgeCall :: "effect \<Rightarrow> bool" where
  "isBridgeCall (BridgeCall m q) = True"
| "isBridgeCall e = False"

fun isStorageWrite :: "effect \<Rightarrow> bool" where
  "isStorageWrite (StorageCall (RemoveAccountContext e)) = True"
| "isStorageWrite (StorageCall (SetAccount e)) = True"
| "isStorageWrite (StorageCall (HydrateCache r q)) = True"
| "isStorageWrite (StorageCall (SetActiveAccount a)) = True"
| "isStorageWrite e = False"

fun isTokenRead :: "effect \<Rightarrow> bool" where
  "isTokenRead (StorageCall GetTokenKeys) = True"
| "isTokenRead (StorageCall (GetAccessToken a r)) = True"
| "isTokenRead (StorageCall (GetIdToken a)) = True"
| "isTokenRead e = False"

fun isEvent :: "effect \<Rightarrow> bool" where
  "isEvent (EmitEvent t i p e) = True"
| "isEvent e = False"



text \<open>
  An effect agrees with the normalized request \<open>vr\<close> and its bridge translation
  \<open>naa\<close>: the start event carries \<open>vr\<close>, a measurement is keyed by the correlation
  identifier of \<open>vr\<close>, the token lookup is made under that identifier, the bridge is
  called with \<open>naa\<close>, a success event carries a result, and a failure event carries no
  payload.
\<close>

fun agreesWith :: "TokenRequest \<Rightarrow> Request \<Rightarrow> effect \<Rightarrow> bool" where
  "agreesWith naa vr (EmitEvent ACQUIRE_TOKEN_START i p e) = (p = PayloadRequest vr)"
| "agreesWith naa vr (EmitEvent ACQUIRE_TOKEN_SUCCESS i p e) =
     (case p of PayloadResult r \<Rightarrow> True | PayloadRequest r \<Rightarrow> False | PayloadNull \<Rightarrow> False)"
| "agreesWith naa vr (EmitEvent ACQUIRE_TOKEN_FAILURE i p e) = (p = PayloadNull)"
| "agreesWith naa vr (StartMeasurement m c) = (c = Request.correlationId vr)"
| "agreesWith naa vr (BridgeCall m q) = (q = naa)"
| "agreesWith naa vr (StorageCall (GetAccessToken a r)) =
     (Request.correlationId r = Request.correlationId vr)"
| "agreesWith naa vr e = True"

section \<open>Concrete inputs\<close>

text \<open>
  One account with a cached access token (cached at 1000, expiring at 5000) and id
  token; a request for one scope without account or correlation identifier; a host
  bridge that answers with new tokens and one that rejects; and a storage whose token
  hydration raises and writes nothing.
\<close>

definition ex_account :: AccountInfo where
  "ex_account =
     \<lparr>AccountInfo.homeAccountId = ''uid.utid'',
      AccountInfo.environment = ''login.windows.net'',
      AccountInfo.tenantId = ''utid'',
      AccountInfo.username = ''ada@contoso.com'',
      AccountInfo.localAccountId = ''uid''\<rparr>"

definition ex_accessToken :: AccessTokenEntity where
  "ex_accessToken =
     \<lparr>AccessTokenEntity.homeAccountId = ''uid.utid'',
      AccessTokenEntity.environment = ''login.windows.net'',
      AccessTokenEntity.realm = ''utid'',
      AccessTokenEntity.target = [''openid'', ''profile'', ''user.read''],
      AccessTokenEntity.secret = ''cached-access-token'',
      AccessTokenEntity.cachedAt = 1000,
      AccessTokenEntity.expiresOn = 5000\<rparr>"

definition ex_idToken :: IdTokenEntity where
  "ex_idToken =
     \<lparr>IdTokenEntity.homeAccountId = ''uid.utid'',
      IdTokenEntity.environment = ''login.windows.net'',
      IdTokenEntity.realm = ''utid'',
      IdTokenEntity.secret = ''cached-id-token''\<rparr>"

definition ex_storage :: Storage where
  "ex_storage =
     \<lparr>accountEntities = [spec_createFromAccountInfo ex_account None None],
      accessTokenEntities = [ex_accessToken],
      idTokenEntities = [ex_idToken],
      activeAccount = None\<rparr>"

definition ex_empty_storage :: Storage where
  "ex_empty_storage =
     \<lparr>accountEntities = [], accessTokenEntities = [], idTokenEntities = [],
      activeAccount = None\<rparr>"

definition ex_world :: "Storage \<Rightarrow> int \<Rightarrow> Storage world" where
  "ex_world s now = \<lparr>storage = s, nowSeconds = now, guidsCreated = 0, trace = []\<rparr>"

definition ex_request :: Request where
  "ex_request =
     \<lparr>Request.account = None, Request.correlationId = None, Request.authority = None,
      Request.scopes = Some [''user.read''], Request.claims = None\<rparr>"

definition ex_response :: AuthResult where
  "ex_response =
     \<lparr>AuthResult.account = ex_account, access_token = ''new-access-token'',
      id_token = ''new-id-token'', expires_in = 3600, AuthResult.scope = [''user.read'']\<rparr>"

definition ex_result :: AuthenticationResult where
  "ex_result =
     \<lparr>AuthenticationResult.authority = ''login.windows.net'',
      AuthenticationResult.account = ex_account,
      AuthenticationResult.tenantId = ''utid'',
      AuthenticationResult.scopes = [''user.read''],
      accessToken = ''new-access-token'',
      idToken = ''new-id-token'',
      AuthenticationResult.expiresOn = 8400,
      AuthenticationResult.correlationId = ''g'',
      requestId = None,
      fromCache = False,
      AuthenticationResult.cloudGraphHostName = None,
      AuthenticationResult.msGraphHost = None\<rparr>"

definition ex_bridge :: IBridgeProxy where
  "ex_bridge =
     \<lparr>getTokenInteractive = (\<lambda>q. Inr ex_response),
      getTokenSilent = (\<lambda>q. Inr ex_response),
      getAccountContext = \<lparr>AccountContext.homeAccountId = ''uid.utid''\<rparr>\<rparr>"

definition ex_failing_bridge :: IBridgeProxy where
  "ex_failing_bridge =
     \<lparr>getTokenInteractive = (\<lambda>q. Inl (BridgeError ''USER_CANCEL'' ''cancelled'')),
      getTokenSilent = (\<lambda>q. Inl (BridgeError ''USER_CANCEL'' ''cancelled'')),
      getAccountContext = \<lparr>AccountContext.homeAccountId = ''uid.utid''\<rparr>\<rparr>"

definition ex_controller :: "Storage NestedAppAuthController" where
  "ex_controller = spec_controller ex_bridge ''client-id'' 300"

definition ex_failing_controller :: "Storage NestedAppAuthController" where
  "ex_failing_controller = spec_controller ex_failing_bridge ''client-id'' 300"

definition ex_quota_controller :: "Storage NestedAppAuthController" where
  "ex_quota_controller =
     ex_controller\<lparr>browserStorage :=
       spec_storage\<lparr>BrowserCacheManager.hydrateCache :=
         (\<lambda>now r q s. (Inl (OtherException ''quota_exceeded''), s))\<rparr>\<rparr>"

section \<open>Auxiliary facts\<close>

lemmas ex_defs = ex_account_def ex_accessToken_def ex_idToken_def ex_storage_def
  ex_empty_storage_def ex_world_def ex_request_def ex_response_def ex_result_def ex_bridge_def
  ex_failing_bridge_def ex_controller_def ex_failing_controller_def ex_quota_controller_def

lemmas spec_defs = spec_controller_def spec_adapter_def spec_fromBridgeError_def
  spec_fromCachedTokens_def spec_fromNaaTokenResponse_def spec_toNaaTokenRequest_def
  spec_crypto_def spec_modules_def spec_DEFAULT_REQUEST_def spec_OIDC_DEFAULT_SCOPES_def
  spec_isTokenExpired_def spec_wasClockTurnedBack_def spec_storage_def spec_hydrateCache_def
  accessTokenEntityOf_def idTokenEntityOf_def spec_setActiveAccount_def spec_setAccount_def
  spec_removeAccountContext_def spec_getIdToken_def spec_getAccessToken_def
  spec_getTokenKeys_def spec_getAccountByHomeId_def getAccountInfo_def
  spec_createFromAccountInfo_def

lemmas controller_defs = acquireTokenSilent_def acquireTokenSilentInternal_def
  acquireTokenSilentInternal_try_def acquireTokenInteractive_def acquireTokenInteractive_try_def
  acquireTokenFromCache_def acquireTokenFromCacheInternal_def correlationIdOr_def
  authRequestOf_def currentAccountOf_def hydrateCache_def ensureValidRequest_def truthy_def
  newGuid_def emitEvent_def perform_def browserStorage_setActiveAccount_def

lemma correlationIdOr_frame:
  "storage (snd (correlationIdOr this r w)) = storage w"
  "nowSeconds (snd (correlationIdOr this r w)) = nowSeconds w"
  "trace (snd (correlationIdOr this r w)) = trace w"
  "fst (correlationIdOr this r (w\<lparr>trace := t\<rparr>)) = fst (correlationIdOr this r w)"
  "guidsCreated (snd (correlationIdOr this r (w\<lparr>trace := t\<rparr>)))
     = guidsCreated (snd (correlationIdOr this r w))"
  by (simp_all add: correlationIdOr_def newGuid_def split: option.splits)

text \<open>
  The lookup in closed form: its result and final world, by the outcome of each step.
\<close>

lemma acquireTokenFromCacheInternal_cases:
  "acquireTokenFromCacheInternal this request w =
     (let e0 = StorageCall (GetAccountByHomeId
                 (AccountContext.homeAccountId (getAccountContext (bridgeProxy this))))
      in case currentAccountOf this request (storage w) of
           None \<Rightarrow> (None, w\<lparr>trace := trace w @ [e0]\<rparr>)
         | Some a \<Rightarrow>
            (let cid = fst (correlationIdOr this request w);
                 g = guidsCreated (snd (correlationIdOr this request w));
                 auth = authRequestOf this a request cid;
                 keys = getTokenKeys (browserStorage this) (storage w);
                 pre = [e0, StorageCall GetTokenKeys, StorageCall (GetAccessToken a auth)]
             in case getAccessToken (browserStorage this) a auth keys (AccountInfo.tenantId a)
                       cid (storage w) of
                  None \<Rightarrow> (None, w\<lparr>guidsCreated := g, trace := trace w @ pre\<rparr>)
                | Some at \<Rightarrow>
                   if wasClockTurnedBack (modules this) (nowSeconds w)
                        (AccessTokenEntity.cachedAt at)
                      \<or> isTokenExpired (modules this) (nowSeconds w)
                          (AccessTokenEntity.expiresOn at)
                          (tokenRenewalOffsetSeconds (config this))
                   then (None,
                         w\<lparr>storage := removeAccountContext (browserStorage this)
                                         (createFromAccountInfo (modules this) a None None)
                                         (storage w),
                           guidsCreated := g,
                           trace := trace w @ pre @
                             [StorageCall (RemoveAccountContext
                                (createFromAccountInfo (modules this) a None None))]\<rparr>)
                   else (case getIdToken (browserStorage this) a keys (AccountInfo.tenantId a)
                                cid (storage w) of
                           None \<Rightarrow>
                             (None, w\<lparr>guidsCreated := g,
                                      trace := trace w @ pre @ [StorageCall (GetIdToken a)]\<rparr>)
                         | Some idt \<Rightarrow>
                             (Some (fromCachedTokens (nestedAppAuthAdapter this) a idt at auth
                                      cid),
                              w\<lparr>guidsCreated := g,
                                trace := trace w @ pre @ [StorageCall (GetIdToken a)]\<rparr>))))"
  by (simp add: acquireTokenFromCacheInternal_def Let_def perform_def split_beta
        correlationIdOr_frame split: option.splits)

text \<open>
  The lookup never reads the trace: started from another trace it returns the same
  result and adds the same effects.
\<close>

lemma acquireTokenFromCacheInternal_trace_indep:
  "acquireTokenFromCacheInternal this r (w\<lparr>trace := t\<rparr>) =
     (fst (acquireTokenFromCacheInternal this r w),
      (snd (acquireTokenFromCacheInternal this r w))
        \<lparr>trace := t @ newEffects w (snd (acquireTokenFromCacheInternal this r w))\<rparr>)"
  by (simp add: acquireTokenFromCacheInternal_cases Let_def newEffects_def
        correlationIdOr_frame split: option.splits)

lemma acquireTokenFromCacheInternal_effects:
  "trace (snd (acquireTokenFromCacheInternal this r w)) =
     trace w @ newEffects w (snd (acquireTokenFromCacheInternal this r w))"
  "filter isEvent (newEffects w (snd (acquireTokenFromCacheInternal this r w))) = []"
  "filter isBridgeCall (newEffects w (snd (acquireTokenFromCacheInternal this r w))) = []"
  "nowSeconds (snd (acquireTokenFromCacheInternal this r w)) = nowSeconds w"
  by (simp_all add: acquireTokenFromCacheInternal_cases Let_def newEffects_def
        split: option.splits)

lemma acquireTokenFromCacheInternal_hit:
  assumes "currentAccountOf this request (storage w) = Some a"
      and "correlationIdOr this request w = (cid, w2)"
      and "getAccessToken (browserStorage this) a (authRequestOf this a request cid)
             (getTokenKeys (browserStorage this) (storage w)) (AccountInfo.tenantId a) cid
             (storage w) = Some at"
      and "\<not> wasClockTurnedBack (modules this) (nowSeconds w) (AccessTokenEntity.cachedAt at)"
      and "\<not> isTokenExpired (modules this) (nowSeconds w) (AccessTokenEntity.expiresOn at)
              (tokenRenewalOffsetSeconds (config this))"
      and "getIdToken (browserStorage this) a (getTokenKeys (browserStorage this) (storage w))
             (AccountInfo.tenantId a) cid (storage w) = Some idt"
  shows "acquireTokenFromCacheInternal this request w =
          (Some (fromCachedTokens (nestedAppAuthAdapter this) a idt at
                   (authRequestOf this a request cid) cid),
           w\<lparr>guidsCreated := guidsCreated w2,
             trace := trace w @
               [StorageCall (GetAccountByHomeId
                  (AccountContext.homeAccountId (getAccountContext (bridgeProxy this)))),
                StorageCall GetTokenKeys,
                StorageCall (GetAccessToken a (authRequestOf this a request cid)),
                StorageCall (GetIdToken a)]\<rparr>)"
  using assms
  by (simp add: acquireTokenFromCacheInternal_cases Let_def)

lemma ensureValidRequest_frame:
  assumes "ensureValidRequest this request w = (vr, w1)"
  shows "storage w1 = storage w" "nowSeconds w1 = nowSeconds w" "trace w1 = trace w"
    "Request.account vr = Request.account request"
  using assms by (auto simp: ensureValidRequest_def newGuid_def split: if_splits)

lemma hydrateCache_effects:
  "trace (snd (hydrateCache this res req w)) =
     trace w @ [StorageCall (SetAccount (createFromAccountInfo (modules this)
                  (AuthenticationResult.account res)
                  (AuthenticationResult.cloudGraphHostName res)
                  (AuthenticationResult.msGraphHost res))),
                StorageCall (HydrateCache res req)]"
  "nowSeconds (snd (hydrateCache this res req w)) = nowSeconds w"
  "guidsCreated (snd (hydrateCache this res req w)) = guidsCreated w"
  by (simp_all add: hydrateCache_def Let_def perform_def split_beta)

text \<open>The two try blocks in closed form: outcome and storage, by the outcome of each step.\<close>

lemma silent_try_cases:
  "fst (acquireTokenSilentInternal_try this request vr w) =
     (let naa = toNaaTokenRequest (nestedAppAuthAdapter this) vr
      in case getTokenSilent (bridgeProxy this) naa of
           Inl e \<Rightarrow> Inl e
         | Inr response \<Rightarrow>
            (case fromNaaTokenResponse (nestedAppAuthAdapter this) naa response (nowSeconds w) of
               Inl e \<Rightarrow> Inl e
             | Inr result \<Rightarrow>
                (case fst (BrowserCacheManager.hydrateCache (browserStorage this)
                             (nowSeconds w) result request
                             (setAccount (browserStorage this)
                                (createFromAccountInfo (modules this)
                                   (AuthenticationResult.account result)
                                   (AuthenticationResult.cloudGraphHostName result)
                                   (AuthenticationResult.msGraphHost result))
                                (storage w))) of
                   Inl e \<Rightarrow> Inl e
                 | Inr u \<Rightarrow> Inr result)))"
  "storage (snd (acquireTokenSilentInternal_try this request vr w)) =
     (let naa = toNaaTokenRequest (nestedAppAuthAdapter this) vr
      in case getTokenSilent (bridgeProxy this) naa of
           Inl e \<Rightarrow> storage w
         | Inr response \<Rightarrow>
            (case fromNaaTokenResponse (nestedAppAuthAdapter this) naa response (nowSeconds w) of
               Inl e \<Rightarrow> storage w
             | Inr result \<Rightarrow>
                (let s1 = setAccount (browserStorage this)
                           (createFromAccountInfo (modules this)
                              (AuthenticationResult.account result)
                              (AuthenticationResult.cloudGraphHostName result)
                              (AuthenticationResult.msGraphHost result))
                           (storage w)
                 in case BrowserCacheManager.hydrateCache (browserStorage this) (nowSeconds w)
                        result request s1 of
                   (Inl e, s) \<Rightarrow> s
                 | (Inr u, s) \<Rightarrow>
                     setActiveAccount (browserStorage this)
                       (Some (AuthenticationResult.account result)) s)))"
  "guidsCreated (snd (acquireTokenSilentInternal_try this request vr w)) = guidsCreated w"
  "nowSeconds (snd (acquireTokenSilentInternal_try this request vr w)) = nowSeconds w"
  by (simp_all add: acquireTokenSilentInternal_try_def Let_def perform_def emitEvent_def
        browserStorage_setActiveAccount_def hydrateCache_def split_beta
        split: sum.splits)

lemma interactive_try_cases:
  "fst (acquireTokenInteractive_try this request vr w) =
     (let naa = toNaaTokenRequest (nestedAppAuthAdapter this) vr
      in case getTokenInteractive (bridgeProxy this) naa of
           Inl e \<Rightarrow> Inl e
         | Inr response \<Rightarrow>
            (case fromNaaTokenResponse (nestedAppAuthAdapter this) naa response (nowSeconds w) of
               Inl e \<Rightarrow> Inl e
             | Inr result \<Rightarrow>
                (case fst (BrowserCacheManager.hydrateCache (browserStorage this)
                             (nowSeconds w) result request
                             (setAccount (browserStorage this)
                                (createFromAccountInfo (modules this)
                                   (AuthenticationResult.account result)
                                   (AuthenticationResult.cloudGraphHostName result)
                                   (AuthenticationResult.msGraphHost result))
                                (storage w))) of
                   Inl e \<Rightarrow> Inl e
                 | Inr u \<Rightarrow> Inr result)))"
  "storage (snd (acquireTokenInteractive_try this request vr w)) =
     (let naa = toNaaTokenRequest (nestedAppAuthAdapter this) vr
      in case getTokenInteractive (bridgeProxy this) naa of
           Inl e \<Rightarrow> storage w
         | Inr response \<Rightarrow>
            (case fromNaaTokenResponse (nestedAppAuthAdapter this) naa response (nowSeconds w) of
               Inl e \<Rightarrow> storage w
             | Inr result \<Rightarrow>
                (let s1 = setAccount (browserStorage this)
                           (createFromAccountInfo (modules this)
                              (AuthenticationResult.account result)
                              (AuthenticationResult.cloudGraphHostName result)
                              (AuthenticationResult.msGraphHost result))
                           (storage w)
                 in case BrowserCacheManager.hydrateCache (browserStorage this) (nowSeconds w)
                        result request s1 of
                   (Inl e, s) \<Rightarrow> s
                 | (Inr u, s) \<Rightarrow>
                     setActiveAccount (browserStorage this)
                       (Some (AuthenticationResult.account result)) s)))"
  "guidsCreated (snd (acquireTokenInteractive_try this request vr w)) = guidsCreated w"
  "nowSeconds (snd (acquireTokenInteractive_try this request vr w)) = nowSeconds w"
  by (simp_all add: acquireTokenInteractive_try_def Let_def perform_def emitEvent_def
        browserStorage_setActiveAccount_def hydrateCache_def split_beta
        split: sum.splits)

text \<open>
  The effects of a try block: the bridge call first, then neither a bridge call nor a
  token read; a success event exactly when the block returns.
\<close>

lemma silent_try_shape:
  "\<exists>sfx. trace (snd (acquireTokenSilentInternal_try this request vr w)) =
           trace w @ BridgeCall GetTokenSilent (toNaaTokenRequest (nestedAppAuthAdapter this) vr)
             # sfx
         \<and> filter isBridgeCall sfx = [] \<and> filter isTokenRead sfx = []
         \<and> filter isEvent sfx =
             (case fst (acquireTokenSilentInternal_try this request vr w) of
                Inr res \<Rightarrow> [EmitEvent ACQUIRE_TOKEN_SUCCESS Silent (PayloadResult res) None]
              | Inl e \<Rightarrow> [])
         \<and> list_all (\<lambda>e. \<forall>n r. agreesWith n r e) sfx"
  by (simp add: acquireTokenSilentInternal_try_def Let_def perform_def emitEvent_def
        browserStorage_setActiveAccount_def hydrateCache_def split_beta
        split: sum.splits)


text \<open>
  The silent flow in terms of the outcome of the lookup: on a miss it is the
  \<^verbatim>\<open>try\<close> block followed by the \<^verbatim>\<open>catch\<close> clause, on a hit it returns at once.
\<close>

lemma silent_miss:
  assumes v: "ensureValidRequest this request w = (vr, w1)"
      and miss: "fst (acquireTokenFromCacheInternal this vr w1) = None"
  shows "acquireTokenSilentInternal this request w =
    (case acquireTokenSilentInternal_try this request vr
            ((snd (acquireTokenFromCacheInternal this vr w1))
              \<lparr>trace := trace w @
                 [EmitEvent ACQUIRE_TOKEN_START Silent (PayloadRequest vr) None,
                  StartMeasurement AcquireTokenSilent (Request.correlationId vr),
                  MeasurementAdd AcquireTokenSilent [nestedAppAuthRequest True]]
                 @ newEffects w1 (snd (acquireTokenFromCacheInternal this vr w1))
                 @ [EmitEvent ACQUIRE_TOKEN_FAILURE Silent PayloadNull None,
                    MeasurementEnd AcquireTokenSilent False None None,
                    StartMeasurement SsoSilent (Request.correlationId vr),
                    MeasurementIncrement SsoSilent [visibilityChangeCount 0],
                    MeasurementAdd SsoSilent [nestedAppAuthRequest True]]\<rparr>) of
       (Inr result, w7) \<Rightarrow> (Inr result, w7)
     | (Inl e, w7) \<Rightarrow>
         (Inl (fromBridgeError (nestedAppAuthAdapter this) e),
          w7\<lparr>trace := trace w7 @
                [EmitEvent ACQUIRE_TOKEN_FAILURE Silent PayloadNull (Some e),
                 MeasurementEnd SsoSilent False None (Some e)]\<rparr>))"
  using v miss ensureValidRequest_frame[OF v]
  by (simp add: acquireTokenSilentInternal_def acquireTokenFromCache_def emitEvent_def
        perform_def Let_def acquireTokenFromCacheInternal_trace_indep split_beta
        split: sum.splits)

lemma silent_hit:
  assumes v: "ensureValidRequest this request w = (vr, w1)"
      and hit: "fst (acquireTokenFromCacheInternal this vr w1) = Some r"
  shows "acquireTokenSilentInternal this request w =
    (Inr r,
     (snd (acquireTokenFromCacheInternal this vr w1))
       \<lparr>trace := trace w @
          [EmitEvent ACQUIRE_TOKEN_START Silent (PayloadRequest vr) None,
           StartMeasurement AcquireTokenSilent (Request.correlationId vr),
           MeasurementAdd AcquireTokenSilent [nestedAppAuthRequest True]]
          @ newEffects w1 (snd (acquireTokenFromCacheInternal this vr w1))
          @ [EmitEvent ACQUIRE_TOKEN_SUCCESS Silent (PayloadResult r) None,
             MeasurementAdd AcquireTokenSilent
               [accessTokenSize (length (accessToken r)), idTokenSize (length (idToken r))],
             MeasurementEnd AcquireTokenSilent True None None,
             EmitEvent ACQUIRE_TOKEN_SUCCESS Silent (PayloadResult r) None]\<rparr>)"
  using v hit ensureValidRequest_frame[OF v]
  by (simp add: acquireTokenSilentInternal_def acquireTokenFromCache_def emitEvent_def
        perform_def Let_def acquireTokenFromCacheInternal_trace_indep split_beta)

text \<open>The interactive flow: the try block followed by the catch clause.\<close>

lemma interactive_flow:
  assumes v: "ensureValidRequest this request w = (vr, w1)"
  shows "acquireTokenInteractive this request w =
    (case acquireTokenInteractive_try this request vr
            (w1\<lparr>trace := trace w @
                 [EmitEvent ACQUIRE_TOKEN_START Popup (PayloadRequest vr) None,
                  StartMeasurement AcquireTokenPopup (Request.correlationId vr),
                  MeasurementAdd AcquireTokenPopup [nestedAppAuthRequest True]]\<rparr>) of
       (Inr result, w5) \<Rightarrow> (Inr result, w5)
     | (Inl e, w5) \<Rightarrow>
         (Inl (fromBridgeError (nestedAppAuthAdapter this) e),
          w5\<lparr>trace := trace w5 @
                [EmitEvent ACQUIRE_TOKEN_FAILURE Popup PayloadNull (Some e),
                 MeasurementEnd AcquireTokenPopup False None (Some e)]\<rparr>))"
  using v ensureValidRequest_frame[OF v]
  by (simp add: acquireTokenInteractive_def emitEvent_def perform_def Let_def split_beta
        split: sum.splits)

text \<open>The cache attempt wraps the lookup in a measurement and one event.\<close>

lemma acquireTokenFromCache_shape:
  "acquireTokenFromCache this r w =
     (fst (acquireTokenFromCacheInternal this r w),
      (snd (acquireTokenFromCacheInternal this r w))
        \<lparr>trace := trace w @
           [StartMeasurement AcquireTokenSilent (Request.correlationId r),
            MeasurementAdd AcquireTokenSilent [nestedAppAuthRequest True]]
           @ newEffects w (snd (acquireTokenFromCacheInternal this r w))
           @ (case fst (acquireTokenFromCacheInternal this r w) of
                Some res \<Rightarrow>
                  [EmitEvent ACQUIRE_TOKEN_SUCCESS Silent (PayloadResult res) None,
                   MeasurementAdd AcquireTokenSilent
                     [accessTokenSize (length (accessToken res)),
                      idTokenSize (length (idToken res))],
                   MeasurementEnd AcquireTokenSilent True None None]
              | None \<Rightarrow>
                  [EmitEvent ACQUIRE_TOKEN_FAILURE Silent PayloadNull None,
                   MeasurementEnd AcquireTokenSilent False None None])\<rparr>)"
  by (simp add: acquireTokenFromCache_def Let_def perform_def emitEvent_def split_beta
        acquireTokenFromCacheInternal_trace_indep split: option.splits)

lemma acquireTokenFromCache_events:
  "filter isEvent (newEffects w (snd (acquireTokenFromCache this r w))) =
     (case fst (acquireTokenFromCacheInternal this r w) of
        Some res \<Rightarrow> [EmitEvent ACQUIRE_TOKEN_SUCCESS Silent (PayloadResult res) None]
      | None \<Rightarrow> [EmitEvent ACQUIRE_TOKEN_FAILURE Silent PayloadNull None])"
  by (subst newEffects_def)
     (simp add: acquireTokenFromCache_shape acquireTokenFromCacheInternal_effects(2)
        split: option.splits)

text \<open>
  The effects of the silent flow after a miss: the start event, the cache attempt with
  its failure event, the second measurement, the bridge call, and what follows it.
\<close>

lemma silent_miss_effects:
  assumes v: "ensureValidRequest this request w = (vr, w1)"
      and miss: "fst (acquireTokenFromCacheInternal this vr w1) = None"
  shows "\<exists>sfx. newEffects w (snd (acquireTokenSilentInternal this request w)) =
           [EmitEvent ACQUIRE_TOKEN_START Silent (PayloadRequest vr) None,
            StartMeasurement AcquireTokenSilent (Request.correlationId vr),
            MeasurementAdd AcquireTokenSilent [nestedAppAuthRequest True]]
           @ newEffects w1 (snd (acquireTokenFromCacheInternal this vr w1))
           @ [EmitEvent ACQUIRE_TOKEN_FAILURE Silent PayloadNull None,
              MeasurementEnd AcquireTokenSilent False None None,
              StartMeasurement SsoSilent (Request.correlationId vr),
              MeasurementIncrement SsoSilent [visibilityChangeCount 0],
              MeasurementAdd SsoSilent [nestedAppAuthRequest True],
              BridgeCall GetTokenSilent (toNaaTokenRequest (nestedAppAuthAdapter this) vr)]
           @ sfx
         \<and> filter isBridgeCall sfx = [] \<and> filter isTokenRead sfx = []
         \<and> list_all (\<lambda>e. \<forall>n r. agreesWith n r e) sfx
         \<and> (case fst (acquireTokenSilentInternal this request w) of
               Inr res \<Rightarrow>
                 filter isEvent sfx =
                   [EmitEvent ACQUIRE_TOKEN_SUCCESS Silent (PayloadResult res) None]
             | Inl err \<Rightarrow>
                 (\<exists>e pre. sfx = pre @ [EmitEvent ACQUIRE_TOKEN_FAILURE Silent PayloadNull (Some e),
                                       MeasurementEnd SsoSilent False None (Some e)]
                        \<and> filter isEvent pre = []
                        \<and> err = fromBridgeError (nestedAppAuthAdapter this) e))"
proof -
  let ?w6 = "(snd (acquireTokenFromCacheInternal this vr w1))
              \<lparr>trace := trace w @
                 [EmitEvent ACQUIRE_TOKEN_START Silent (PayloadRequest vr) None,
                  StartMeasurement AcquireTokenSilent (Request.correlationId vr),
                  MeasurementAdd AcquireTokenSilent [nestedAppAuthRequest True]]
                 @ newEffects w1 (snd (acquireTokenFromCacheInternal this vr w1))
                 @ [EmitEvent ACQUIRE_TOKEN_FAILURE Silent PayloadNull None,
                    MeasurementEnd AcquireTokenSilent False None None,
                    StartMeasurement SsoSilent (Request.correlationId vr),
                    MeasurementIncrement SsoSilent [visibilityChangeCount 0],
                    MeasurementAdd SsoSilent [nestedAppAuthRequest True]]\<rparr>"
  obtain x w7 where t: "acquireTokenSilentInternal_try this request vr ?w6 = (x, w7)"
    by (cases "acquireTokenSilentInternal_try this request vr ?w6")
  obtain sfx where sfx:
    "trace w7 =
       trace ?w6 @ BridgeCall GetTokenSilent (toNaaTokenRequest (nestedAppAuthAdapter this) vr)
         # sfx"
    "filter isBridgeCall sfx = []" "filter isTokenRead sfx = []"
    "filter isEvent sfx =
       (case x of Inr res \<Rightarrow> [EmitEvent ACQUIRE_TOKEN_SUCCESS Silent (PayloadResult res) None]
        | Inl e \<Rightarrow> [])"
    "list_all (\<lambda>e. \<forall>n r. agreesWith n r e) sfx"
    using silent_try_shape[of this request vr ?w6] unfolding t by auto
  show ?thesis
  proof (cases x)
    case (Inr res)
    have "newEffects w (snd (acquireTokenSilentInternal this request w)) =
           [EmitEvent ACQUIRE_TOKEN_START Silent (PayloadRequest vr) None,
            StartMeasurement AcquireTokenSilent (Request.correlationId vr),
            MeasurementAdd AcquireTokenSilent [nestedAppAuthRequest True]]
           @ newEffects w1 (snd (acquireTokenFromCacheInternal this vr w1))
           @ [EmitEvent ACQUIRE_TOKEN_FAILURE Silent PayloadNull None,
              MeasurementEnd AcquireTokenSilent False None None,
              StartMeasurement SsoSilent (Request.correlationId vr),
              MeasurementIncrement SsoSilent [visibilityChangeCount 0],
              MeasurementAdd SsoSilent [nestedAppAuthRequest True],
              BridgeCall GetTokenSilent (toNaaTokenRequest (nestedAppAuthAdapter this) vr)]
           @ sfx"
      and "fst (acquireTokenSilentInternal this request w) = Inr res"
      using silent_miss[OF v miss] t sfx(1) Inr
      by (simp_all add: newEffects_def[of w])
    then show ?thesis using sfx(2-5) Inr by auto
  next
    case (Inl e)
    let ?sfx = "sfx @ [EmitEvent ACQUIRE_TOKEN_FAILURE Silent PayloadNull (Some e),
                     MeasurementEnd SsoSilent False None (Some e)]"
    have "newEffects w (snd (acquireTokenSilentInternal this request w)) =
           [EmitEvent ACQUIRE_TOKEN_START Silent (PayloadRequest vr) None,
            StartMeasurement AcquireTokenSilent (Request.correlationId vr),
            MeasurementAdd AcquireTokenSilent [nestedAppAuthRequest True]]
           @ newEffects w1 (snd (acquireTokenFromCacheInternal this vr w1))
           @ [EmitEvent ACQUIRE_TOKEN_FAILURE Silent PayloadNull None,
              MeasurementEnd AcquireTokenSilent False None None,
              StartMeasurement SsoSilent (Request.correlationId vr),
              MeasurementIncrement SsoSilent [visibilityChangeCount 0],
              MeasurementAdd SsoSilent [nestedAppAuthRequest True],
              BridgeCall GetTokenSilent (toNaaTokenRequest (nestedAppAuthAdapter this) vr)]
           @ ?sfx"
      and "fst (acquireTokenSilentInternal this request w)
             = Inl (fromBridgeError (nestedAppAuthAdapter this) e)"
      using silent_miss[OF v miss] t sfx(1) Inl
      by (simp_all add: newEffects_def[of w])
    moreover have "filter isBridgeCall ?sfx = []" "filter isTokenRead ?sfx = []"
      "list_all (\<lambda>e. \<forall>n r. agreesWith n r e) ?sfx"
      using sfx by simp_all
    moreover have "\<exists>e' pre. ?sfx = pre @ [EmitEvent ACQUIRE_TOKEN_FAILURE Silent PayloadNull (Some e'),
                                       MeasurementEnd SsoSilent False None (Some e')]
                        \<and> filter isEvent pre = []
                        \<and> fromBridgeError (nestedAppAuthAdapter this) e
                            = fromBridgeError (nestedAppAuthAdapter this) e'"
      using sfx(4) Inl by auto
    ultimately show ?thesis
      by (intro exI[of _ ?sfx]) simp
  qed
qed






text \<open>
  On the storage of the specification, \<^verbatim>\<open>removeAccountContext\<close> leaves no
  access token, id token or account entry of the account behind.
\<close>

lemma spec_removeAccountContext_purges:
  "find (\<lambda>t. AccessTokenEntity.homeAccountId t = AccountEntity.homeAccountId e
             \<and> AccessTokenEntity.environment t = AccountEntity.environment e)
        (accessTokenEntities (spec_removeAccountContext e s)) = None"
  "find (\<lambda>t. IdTokenEntity.homeAccountId t = AccountEntity.homeAccountId e
             \<and> IdTokenEntity.environment t = AccountEntity.environment e)
        (idTokenEntities (spec_removeAccountContext e s)) = None"
  "find (\<lambda>x. AccountEntity.homeAccountId x = AccountEntity.homeAccountId e
             \<and> AccountEntity.environment x = AccountEntity.environment e)
        (accountEntities (spec_removeAccountContext e s)) = None"
  by (simp_all add: spec_removeAccountContext_def find_None_iff)

section \<open>Properties of the controller\<close>

subsection \<open>Unsupported operations\<close>

text \<open>
  C5. Every call to an operation that is not supported in nested app auth
  (acquireTokenRedirect, acquireTokenByCode, acquireTokenNative,
  acquireTokenByRefreshToken, loginRedirect, logout, logoutRedirect, logoutPopup,
  addPerformanceCallback, removePerformanceCallback, clearCache, getTokenCache) fails
  with the unsupported-operation error and leaves the world as it was: no event is
  emitted, no measurement is started, nothing is written to storage.
\<close>

theorem unsupported_operations_fail_without_effect:
  "acquireTokenRedirect this request w = (Inl UnsupportedError, w)
 \<and> acquireTokenByCode this codeRequest w = (Inl UnsupportedError, w)
 \<and> acquireTokenNative this request apiId accountId w = (Inl UnsupportedError, w)
 \<and> acquireTokenByRefreshToken this commonRequest request w = (Inl UnsupportedError, w)
 \<and> loginRedirect this optRequest w = (Inl UnsupportedError, w)
 \<and> logout this logoutRequest w = (Inl UnsupportedError, w)
 \<and> logoutRedirect this logoutRequest w = (Inl UnsupportedError, w)
 \<and> logoutPopup this logoutRequest w = (Inl UnsupportedError, w)
 \<and> addPerformanceCallback this callback w = (Inl UnsupportedError, w)
 \<and> removePerformanceCallback this callbackId w = (Inl UnsupportedError, w)
 \<and> clearCache this logoutRequest w = (Inl UnsupportedError, w)
 \<and> getTokenCache this w = (Inl UnsupportedError, w)"
  by (simp add: acquireTokenRedirect_def acquireTokenByCode_def acquireTokenNative_def
        acquireTokenByRefreshToken_def loginRedirect_def logout_def logoutRedirect_def
        logoutPopup_def addPerformanceCallback_def removePerformanceCallback_def
        clearCache_def getTokenCache_def createUnsupportedError_def)

subsection \<open>Serving a request from the cache\<close>

text \<open>
  C1. A silent request whose resolved account has a matching cached access token that
  passes both freshness checks, and a matching cached id token, is answered with the
  result the adapter assembles from the account, the two cached tokens and the
  normalized request. The storage is left as it was, and among the effects of the call
  there is no call on the bridge and no storage write (so no hydration).
\<close>

theorem acquireTokenSilent_served_from_cache:
  assumes valid: "ensureValidRequest this request w = (validRequest, w1)"
      and corr: "correlationIdOr this validRequest w1 = (cid, w2)"
      and acct: "currentAccountOf this validRequest (storage w) = Some currentAccount"
      and auth: "authRequest = authRequestOf this currentAccount validRequest cid"
      and keys: "tokenKeys = getTokenKeys (browserStorage this) (storage w)"
      and at: "getAccessToken (browserStorage this) currentAccount authRequest tokenKeys
                 (AccountInfo.tenantId currentAccount) cid (storage w) = Some at"
      and clock: "\<not> wasClockTurnedBack (modules this) (nowSeconds w)
                      (AccessTokenEntity.cachedAt at)"
      and fresh: "\<not> isTokenExpired (modules this) (nowSeconds w)
                      (AccessTokenEntity.expiresOn at) (tokenRenewalOffsetSeconds (config this))"
      and idt: "getIdToken (browserStorage this) currentAccount tokenKeys
                  (AccountInfo.tenantId currentAccount) cid (storage w) = Some idt"
  shows "fst (acquireTokenSilent this request w) =
           Inr (fromCachedTokens (nestedAppAuthAdapter this) currentAccount idt at authRequest cid)
       \<and> storage (snd (acquireTokenSilent this request w)) = storage w
       \<and> list_all (\<lambda>e. \<not> isBridgeCall e \<and> \<not> isStorageWrite e)
           (newEffects w (snd (acquireTokenSilent this request w)))"
proof -
  note fr = ensureValidRequest_frame[OF valid]
  have hit: "acquireTokenFromCacheInternal this validRequest w1 =
          (Some (fromCachedTokens (nestedAppAuthAdapter this) currentAccount idt at
                   authRequest cid),
           w1\<lparr>guidsCreated := guidsCreated w2,
             trace := trace w1 @
               [StorageCall (GetAccountByHomeId
                  (AccountContext.homeAccountId (getAccountContext (bridgeProxy this)))),
                StorageCall GetTokenKeys,
                StorageCall (GetAccessToken currentAccount authRequest),
                StorageCall (GetIdToken currentAccount)]\<rparr>)"
    unfolding auth
    by (rule acquireTokenFromCacheInternal_hit)
       (use corr acct at clock fresh idt fr auth keys in simp_all)
  show ?thesis
    using silent_hit[OF valid, of "fromCachedTokens (nestedAppAuthAdapter this) currentAccount
        idt at authRequest cid"] hit fr
    by (simp add: acquireTokenSilent_def newEffects_def)
qed

theorem acquireTokenSilent_served_from_cache_witness:
  "fst (acquireTokenSilent ex_controller ex_request (ex_world ex_storage 2000)) =
     Inr (spec_fromCachedTokens ex_account ex_idToken ex_accessToken
            (ex_request\<lparr>Request.correlationId := Some ''g'',
                         Request.authority := Some ''login.windows.net''\<rparr>) ''g'')
 \<and> storage (snd (acquireTokenSilent ex_controller ex_request (ex_world ex_storage 2000)))
     = ex_storage
 \<and> list_all (\<lambda>e. \<not> isBridgeCall e \<and> \<not> isStorageWrite e)
     (trace (snd (acquireTokenSilent ex_controller ex_request (ex_world ex_storage 2000))))"
proof -
  let ?w = "ex_world ex_storage 2000"
  let ?vr = "ex_request\<lparr>Request.correlationId := Some ''g''\<rparr>"
  let ?w1 = "?w\<lparr>guidsCreated := 1\<rparr>"
  let ?auth = "ex_request\<lparr>Request.correlationId := Some ''g'',
                          Request.authority := Some ''login.windows.net''\<rparr>"
  have h1: "ensureValidRequest ex_controller ex_request ?w = (?vr, ?w1)"
    by (simp add: ex_defs spec_defs ensureValidRequest_def truthy_def newGuid_def)
  have h2: "correlationIdOr ex_controller ?vr ?w1 = (''g'', ?w1)"
    by (simp add: correlationIdOr_def ex_defs)
  have h3: "currentAccountOf ex_controller ?vr (storage ?w) = Some ex_account"
    by (simp add: currentAccountOf_def ex_defs spec_defs)
  have h4: "?auth = authRequestOf ex_controller ex_account ?vr ''g''"
    by (simp add: authRequestOf_def ex_defs spec_defs)
  have h5: "spec_getTokenKeys ex_storage = getTokenKeys (browserStorage ex_controller) (storage ?w)"
    by (simp add: ex_defs spec_defs)
  have h6: "getAccessToken (browserStorage ex_controller) ex_account ?auth
              (spec_getTokenKeys ex_storage) (AccountInfo.tenantId ex_account) ''g'' (storage ?w)
            = Some ex_accessToken"
    by (simp add: ex_defs spec_defs)
  have h7: "\<not> wasClockTurnedBack (modules ex_controller) (nowSeconds ?w)
                (AccessTokenEntity.cachedAt ex_accessToken)"
    by (simp add: ex_defs spec_defs)
  have h8: "\<not> isTokenExpired (modules ex_controller) (nowSeconds ?w)
               (AccessTokenEntity.expiresOn ex_accessToken)
               (tokenRenewalOffsetSeconds (config ex_controller))"
    by (simp add: ex_defs spec_defs)
  have h9: "getIdToken (browserStorage ex_controller) ex_account (spec_getTokenKeys ex_storage)
              (AccountInfo.tenantId ex_account) ''g'' (storage ?w) = Some ex_idToken"
    by (simp add: ex_defs spec_defs)
  have nf: "fromCachedTokens (nestedAppAuthAdapter ex_controller) = spec_fromCachedTokens"
           "storage ?w = ex_storage" "trace ?w = []"
    by (simp_all add: ex_defs spec_defs)
  from acquireTokenSilent_served_from_cache[OF h1 h2 h3 h4 h5 h6 h7 h8 h9]
  show ?thesis
    by (simp add: nf newEffects_def)
qed

subsection \<open>A stale access token\<close>

text \<open>
  C2. When the cached access token found for the resolved account fails freshness
  validation (the clock was turned back since it was cached, or the token is within
  the renewal offset of its expiry), the lookup returns absent, and before it returns
  it calls \<^verbatim>\<open>removeAccountContext\<close> on the account's entity: the storage it leaves
  is the storage after that removal, the removal is the last effect of the lookup, and
  the id token is never read.
\<close>

theorem stale_access_token_purges_account:
  assumes acct: "currentAccountOf this request (storage w) = Some currentAccount"
      and corr: "correlationIdOr this request w = (cid, w2)"
      and auth: "authRequest = authRequestOf this currentAccount request cid"
      and at: "getAccessToken (browserStorage this) currentAccount authRequest
                 (getTokenKeys (browserStorage this) (storage w))
                 (AccountInfo.tenantId currentAccount) cid (storage w) = Some at"
      and stale: "wasClockTurnedBack (modules this) (nowSeconds w)
                    (AccessTokenEntity.cachedAt at)
                  \<or> isTokenExpired (modules this) (nowSeconds w)
                      (AccessTokenEntity.expiresOn at)
                      (tokenRenewalOffsetSeconds (config this))"
      and ent: "accountEntity = createFromAccountInfo (modules this) currentAccount None None"
  shows "fst (acquireTokenFromCacheInternal this request w) = None
       \<and> storage (snd (acquireTokenFromCacheInternal this request w)) =
           removeAccountContext (browserStorage this) accountEntity (storage w)
       \<and> newEffects w (snd (acquireTokenFromCacheInternal this request w)) =
           [StorageCall (GetAccountByHomeId
              (AccountContext.homeAccountId (getAccountContext (bridgeProxy this)))),
            StorageCall GetTokenKeys,
            StorageCall (GetAccessToken currentAccount authRequest),
            StorageCall (RemoveAccountContext accountEntity)]"
proof -
  have cid: "fst (correlationIdOr this request w) = cid"
    using corr by simp
  show ?thesis
    using acct cid auth at stale ent
    by (simp add: acquireTokenFromCacheInternal_cases Let_def newEffects_def)
qed

theorem stale_access_token_purges_account_witness:
  "spec_isTokenExpired 4800 (AccessTokenEntity.expiresOn ex_accessToken) 300
 \<and> fst (acquireTokenFromCacheInternal ex_controller
          (ex_request\<lparr>Request.correlationId := Some ''c1''\<rparr>) (ex_world ex_storage 4800)) = None
 \<and> storage (snd (acquireTokenFromCacheInternal ex_controller
          (ex_request\<lparr>Request.correlationId := Some ''c1''\<rparr>) (ex_world ex_storage 4800)))
     = ex_empty_storage
 \<and> last (trace (snd (acquireTokenFromCacheInternal ex_controller
          (ex_request\<lparr>Request.correlationId := Some ''c1''\<rparr>) (ex_world ex_storage 4800))))
     = StorageCall (RemoveAccountContext (spec_createFromAccountInfo ex_account None None))"
proof -
  let ?w = "ex_world ex_storage 4800"
  let ?r = "ex_request\<lparr>Request.correlationId := Some ''c1''\<rparr>"
  let ?auth = "ex_request\<lparr>Request.correlationId := Some ''c1'',
                          Request.authority := Some ''login.windows.net''\<rparr>"
  have h1: "currentAccountOf ex_controller ?r (storage ?w) = Some ex_account"
    by (simp add: currentAccountOf_def ex_defs spec_defs)
  have h2: "correlationIdOr ex_controller ?r ?w = (''c1'', ?w)"
    by (simp add: correlationIdOr_def ex_defs)
  have h3: "?auth = authRequestOf ex_controller ex_account ?r ''c1''"
    by (simp add: authRequestOf_def ex_defs spec_defs)
  have h4: "getAccessToken (browserStorage ex_controller) ex_account ?auth
              (getTokenKeys (browserStorage ex_controller) (storage ?w))
              (AccountInfo.tenantId ex_account) ''c1'' (storage ?w) = Some ex_accessToken"
    by (simp add: ex_defs spec_defs)
  have e: "spec_isTokenExpired 4800 (AccessTokenEntity.expiresOn ex_accessToken) 300"
    by (simp add: ex_defs spec_defs)
  have h5: "wasClockTurnedBack (modules ex_controller) (nowSeconds ?w)
              (AccessTokenEntity.cachedAt ex_accessToken)
            \<or> isTokenExpired (modules ex_controller) (nowSeconds ?w)
                (AccessTokenEntity.expiresOn ex_accessToken)
                (tokenRenewalOffsetSeconds (config ex_controller))"
    by (simp add: ex_defs spec_defs)
  have h6: "spec_createFromAccountInfo ex_account None None
              = createFromAccountInfo (modules ex_controller) ex_account None None"
    by (simp add: ex_defs spec_defs)
  have s: "removeAccountContext (browserStorage ex_controller)
             (spec_createFromAccountInfo ex_account None None) (storage ?w) = ex_empty_storage"
    by (simp add: ex_defs spec_defs)
  have t: "trace (snd (acquireTokenFromCacheInternal ex_controller ?r ?w)) =
           trace ?w @ newEffects ?w (snd (acquireTokenFromCacheInternal ex_controller ?r ?w))"
    by (rule acquireTokenFromCacheInternal_effects)
  from stale_access_token_purges_account[OF h1 h2 h3 h4 h5 h6] e s t
  show ?thesis by simp
qed

subsection \<open>Normalization of the request in the lookup\<close>

text \<open>
  C9. For a request with a resolved account, the request under which the access token
  is looked up is the normalized one, and no other: its correlation identifier is the
  caller's when the caller gave one and a new GUID otherwise; its authority is the
  caller's when given and the resolved account's environment otherwise; its scopes are
  the caller's when the caller gave a non-empty list and the OIDC default scopes
  otherwise; the account and the claims are the caller's. A string field counts as
  given when it is defined and not empty, as the source's \<^verbatim>\<open>||\<close> has it.
\<close>

theorem lookup_request_normalized:
  assumes acct: "currentAccountOf this request (storage w) = Some currentAccount"
      and corr: "correlationIdOr this request w = (cid, w2)"
      and auth: "authRequest = authRequestOf this currentAccount request cid"
  shows "StorageCall (GetAccessToken currentAccount authRequest)
           \<in> set (newEffects w (snd (acquireTokenFromCacheInternal this request w)))
       \<and> (\<forall>a r. StorageCall (GetAccessToken a r)
                   \<in> set (newEffects w (snd (acquireTokenFromCacheInternal this request w)))
                 \<longrightarrow> a = currentAccount \<and> r = authRequest)
       \<and> Request.correlationId authRequest =
           Some (if truthy (Request.correlationId request)
                 then the (Request.correlationId request)
                 else createNewGuid (browserCrypto this) (guidsCreated w))
       \<and> Request.authority authRequest =
           Some (if truthy (Request.authority request)
                 then the (Request.authority request)
                 else AccountInfo.environment currentAccount)
       \<and> Request.scopes authRequest =
           Some (if Request.scopes request = None \<or> Request.scopes request = Some []
                 then OIDC_DEFAULT_SCOPES (modules this)
                 else the (Request.scopes request))
       \<and> Request.account authRequest = Request.account request
       \<and> Request.claims authRequest = Request.claims request"
proof -
  have cid: "fst (correlationIdOr this request w) = cid"
       "cid = (if truthy (Request.correlationId request)
                    then the (Request.correlationId request)
                    else createNewGuid (browserCrypto this) (guidsCreated w))"
    using corr
    by (auto simp: correlationIdOr_def newGuid_def truthy_def split: option.splits if_splits)
  have tr: "StorageCall (GetAccessToken currentAccount authRequest)
           \<in> set (newEffects w (snd (acquireTokenFromCacheInternal this request w)))"
    and only: "\<forall>a r. StorageCall (GetAccessToken a r)
                   \<in> set (newEffects w (snd (acquireTokenFromCacheInternal this request w)))
                 \<longrightarrow> a = currentAccount \<and> r = authRequest"
    using acct cid(1) auth
    by (simp_all add: acquireTokenFromCacheInternal_cases Let_def newEffects_def
          split: option.splits)
  have fields: "Request.correlationId authRequest = Some cid"
    "Request.authority authRequest =
           Some (if truthy (Request.authority request)
                 then the (Request.authority request)
                 else AccountInfo.environment currentAccount)"
    "Request.scopes authRequest =
           Some (if Request.scopes request = None \<or> Request.scopes request = Some []
                 then OIDC_DEFAULT_SCOPES (modules this)
                 else the (Request.scopes request))"
    "Request.account authRequest = Request.account request"
    "Request.claims authRequest = Request.claims request"
    unfolding auth
    by (simp_all add: authRequestOf_def truthy_def split: option.splits)
  from fields cid(2) have
    "Request.correlationId authRequest =
           Some (if truthy (Request.correlationId request)
                 then the (Request.correlationId request)
                 else createNewGuid (browserCrypto this) (guidsCreated w))"
    by simp
  with tr only fields(2-5) show ?thesis by blast
qed

theorem lookup_request_normalized_witness:
  "authRequestOf ex_controller ex_account
     \<lparr>Request.account = None, Request.correlationId = None,
      Request.authority = Some ''login.contoso.example'', Request.scopes = Some [],
      Request.claims = Some ''cp1''\<rparr> ''g''
   = \<lparr>Request.account = None, Request.correlationId = Some ''g'',
      Request.authority = Some ''login.contoso.example'',
      Request.scopes = Some [''openid'', ''profile'', ''offline_access''],
      Request.claims = Some ''cp1''\<rparr>
 \<and> StorageCall (GetAccessToken ex_account
      \<lparr>Request.account = None, Request.correlationId = Some ''g'',
       Request.authority = Some ''login.contoso.example'',
       Request.scopes = Some [''openid'', ''profile'', ''offline_access''],
       Request.claims = Some ''cp1''\<rparr>)
     \<in> set (trace (snd (acquireTokenFromCacheInternal ex_controller
           \<lparr>Request.account = None, Request.correlationId = None,
            Request.authority = Some ''login.contoso.example'', Request.scopes = Some [],
            Request.claims = Some ''cp1''\<rparr> (ex_world ex_storage 2000))))"
proof -
  let ?w = "ex_world ex_storage 2000"
  let ?r = "\<lparr>Request.account = None, Request.correlationId = None,
      Request.authority = Some ''login.contoso.example'', Request.scopes = Some [],
      Request.claims = Some ''cp1''\<rparr>"
  let ?auth = "\<lparr>Request.account = None, Request.correlationId = Some ''g'',
      Request.authority = Some ''login.contoso.example'',
      Request.scopes = Some [''openid'', ''profile'', ''offline_access''],
      Request.claims = Some ''cp1''\<rparr>"
  have h1: "currentAccountOf ex_controller ?r (storage ?w) = Some ex_account"
    by (simp add: currentAccountOf_def ex_defs spec_defs)
  have h2: "correlationIdOr ex_controller ?r ?w = (''g'', ?w\<lparr>guidsCreated := 1\<rparr>)"
    by (simp add: correlationIdOr_def newGuid_def ex_defs spec_defs)
  have h3: "?auth = authRequestOf ex_controller ex_account ?r ''g''"
    by (simp add: authRequestOf_def ex_defs spec_defs)
  have t: "trace (snd (acquireTokenFromCacheInternal ex_controller ?r ?w)) =
           trace ?w @ newEffects ?w (snd (acquireTokenFromCacheInternal ex_controller ?r ?w))"
    by (rule acquireTokenFromCacheInternal_effects)
  have m: "StorageCall (GetAccessToken ex_account ?auth)
             \<in> set (newEffects ?w (snd (acquireTokenFromCacheInternal ex_controller ?r ?w)))"
    by (rule conjunct1[OF lookup_request_normalized[OF h1 h2 h3]])
  have "StorageCall (GetAccessToken ex_account ?auth)
             \<in> set (trace (snd (acquireTokenFromCacheInternal ex_controller ?r ?w)))"
    by (subst t) (use m in simp)
  with h3 show ?thesis by simp
qed


subsection \<open>Resolving the account\<close>



subsection \<open>Events of the cache attempt\<close>

text \<open>
  C10. When the lookup of a silent call returns a result, the call returns it and the
  success event is emitted twice with that result: once by
  \<^verbatim>\<open>acquireTokenFromCache\<close> and once more by \<^verbatim>\<open>acquireTokenSilentInternal\<close>. When
  the lookup returns absent, \<^verbatim>\<open>acquireTokenFromCache\<close> emits a failure event, and the
  call goes on to the bridge; if the bridge path succeeds, the events of the call are
  start, failure, success.
\<close>

theorem cache_hit_emits_success_twice:
  assumes v: "ensureValidRequest this request w = (vr, w1)"
  shows "(\<forall>r. fst (acquireTokenFromCacheInternal this vr w1) = Some r \<longrightarrow>
            fst (acquireTokenSilentInternal this request w) = Inr r
          \<and> filter isEvent (newEffects w1 (snd (acquireTokenFromCache this vr w1))) =
              [EmitEvent ACQUIRE_TOKEN_SUCCESS Silent (PayloadResult r) None]
          \<and> filter isEvent (newEffects w (snd (acquireTokenSilentInternal this request w))) =
              [EmitEvent ACQUIRE_TOKEN_START Silent (PayloadRequest vr) None,
               EmitEvent ACQUIRE_TOKEN_SUCCESS Silent (PayloadResult r) None,
               EmitEvent ACQUIRE_TOKEN_SUCCESS Silent (PayloadResult r) None])
       \<and> (fst (acquireTokenFromCacheInternal this vr w1) = None \<longrightarrow>
            filter isEvent (newEffects w1 (snd (acquireTokenFromCache this vr w1))) =
              [EmitEvent ACQUIRE_TOKEN_FAILURE Silent PayloadNull None]
          \<and> take 2 (filter isEvent
                       (newEffects w (snd (acquireTokenSilentInternal this request w)))) =
              [EmitEvent ACQUIRE_TOKEN_START Silent (PayloadRequest vr) None,
               EmitEvent ACQUIRE_TOKEN_FAILURE Silent PayloadNull None]
          \<and> filter isBridgeCall
               (newEffects w (snd (acquireTokenSilentInternal this request w))) =
              [BridgeCall GetTokenSilent (toNaaTokenRequest (nestedAppAuthAdapter this) vr)]
          \<and> (\<forall>res. fst (acquireTokenSilentInternal this request w) = Inr res \<longrightarrow>
                filter isEvent
                  (newEffects w (snd (acquireTokenSilentInternal this request w))) =
                  [EmitEvent ACQUIRE_TOKEN_START Silent (PayloadRequest vr) None,
                   EmitEvent ACQUIRE_TOKEN_FAILURE Silent PayloadNull None,
                   EmitEvent ACQUIRE_TOKEN_SUCCESS Silent (PayloadResult res) None]))"
proof (intro conjI allI impI)
  fix r
  assume hit: "fst (acquireTokenFromCacheInternal this vr w1) = Some r"
  show "fst (acquireTokenSilentInternal this request w) = Inr r"
    using silent_hit[OF v hit] by simp
  show "filter isEvent (newEffects w1 (snd (acquireTokenFromCache this vr w1))) =
              [EmitEvent ACQUIRE_TOKEN_SUCCESS Silent (PayloadResult r) None]"
    using hit by (simp add: acquireTokenFromCache_events)
  show "filter isEvent (newEffects w (snd (acquireTokenSilentInternal this request w))) =
              [EmitEvent ACQUIRE_TOKEN_START Silent (PayloadRequest vr) None,
               EmitEvent ACQUIRE_TOKEN_SUCCESS Silent (PayloadResult r) None,
               EmitEvent ACQUIRE_TOKEN_SUCCESS Silent (PayloadResult r) None]"
    using silent_hit[OF v hit]
    by (simp add: newEffects_def[of w] acquireTokenFromCacheInternal_effects)
next
  assume miss: "fst (acquireTokenFromCacheInternal this vr w1) = None"
  obtain sfx where sfx:
    "newEffects w (snd (acquireTokenSilentInternal this request w)) =
           [EmitEvent ACQUIRE_TOKEN_START Silent (PayloadRequest vr) None,
            StartMeasurement AcquireTokenSilent (Request.correlationId vr),
            MeasurementAdd AcquireTokenSilent [nestedAppAuthRequest True]]
           @ newEffects w1 (snd (acquireTokenFromCacheInternal this vr w1))
           @ [EmitEvent ACQUIRE_TOKEN_FAILURE Silent PayloadNull None,
              MeasurementEnd AcquireTokenSilent False None None,
              StartMeasurement SsoSilent (Request.correlationId vr),
              MeasurementIncrement SsoSilent [visibilityChangeCount 0],
              MeasurementAdd SsoSilent [nestedAppAuthRequest True],
              BridgeCall GetTokenSilent (toNaaTokenRequest (nestedAppAuthAdapter this) vr)]
           @ sfx"
    "filter isBridgeCall sfx = []"
    "case fst (acquireTokenSilentInternal this request w) of
               Inr res \<Rightarrow>
                 filter isEvent sfx =
                   [EmitEvent ACQUIRE_TOKEN_SUCCESS Silent (PayloadResult res) None]
             | Inl err \<Rightarrow>
                 (\<exists>e pre. sfx = pre @ [EmitEvent ACQUIRE_TOKEN_FAILURE Silent PayloadNull (Some e),
                                       MeasurementEnd SsoSilent False None (Some e)]
                        \<and> filter isEvent pre = []
                        \<and> err = fromBridgeError (nestedAppAuthAdapter this) e)"
    using silent_miss_effects[OF v miss] by blast
  show "filter isEvent (newEffects w1 (snd (acquireTokenFromCache this vr w1))) =
              [EmitEvent ACQUIRE_TOKEN_FAILURE Silent PayloadNull None]"
    using miss by (simp add: acquireTokenFromCache_events)
  show "take 2 (filter isEvent
                       (newEffects w (snd (acquireTokenSilentInternal this request w)))) =
              [EmitEvent ACQUIRE_TOKEN_START Silent (PayloadRequest vr) None,
               EmitEvent ACQUIRE_TOKEN_FAILURE Silent PayloadNull None]"
    unfolding sfx(1) by (simp add: acquireTokenFromCacheInternal_effects)
  show "filter isBridgeCall
               (newEffects w (snd (acquireTokenSilentInternal this request w))) =
              [BridgeCall GetTokenSilent (toNaaTokenRequest (nestedAppAuthAdapter this) vr)]"
    unfolding sfx(1) using sfx(2) by (simp add: acquireTokenFromCacheInternal_effects)
  fix res
  assume ok: "fst (acquireTokenSilentInternal this request w) = Inr res"
  show "filter isEvent
                  (newEffects w (snd (acquireTokenSilentInternal this request w))) =
                  [EmitEvent ACQUIRE_TOKEN_START Silent (PayloadRequest vr) None,
                   EmitEvent ACQUIRE_TOKEN_FAILURE Silent PayloadNull None,
                   EmitEvent ACQUIRE_TOKEN_SUCCESS Silent (PayloadResult res) None]"
    using sfx(3) unfolding sfx(1) ok by (simp add: acquireTokenFromCacheInternal_effects)
qed

theorem cache_hit_emits_success_twice_witness:
  "filter isEvent (trace (snd (acquireTokenSilentInternal ex_controller ex_request
                                 (ex_world ex_storage 2000)))) =
     [EmitEvent ACQUIRE_TOKEN_START Silent
        (PayloadRequest (ex_request\<lparr>Request.correlationId := Some ''g''\<rparr>)) None,
      EmitEvent ACQUIRE_TOKEN_SUCCESS Silent
        (PayloadResult (spec_fromCachedTokens ex_account ex_idToken ex_accessToken
           (ex_request\<lparr>Request.correlationId := Some ''g'',
                        Request.authority := Some ''login.windows.net''\<rparr>) ''g'')) None,
      EmitEvent ACQUIRE_TOKEN_SUCCESS Silent
        (PayloadResult (spec_fromCachedTokens ex_account ex_idToken ex_accessToken
           (ex_request\<lparr>Request.correlationId := Some ''g'',
                        Request.authority := Some ''login.windows.net''\<rparr>) ''g'')) None]
 \<and> fst (acquireTokenSilentInternal ex_controller ex_request (ex_world ex_empty_storage 4800))
     = Inr ex_result
 \<and> filter isEvent (trace (snd (acquireTokenSilentInternal ex_controller ex_request
                                 (ex_world ex_empty_storage 4800)))) =
     [EmitEvent ACQUIRE_TOKEN_START Silent
        (PayloadRequest (ex_request\<lparr>Request.correlationId := Some ''g''\<rparr>)) None,
      EmitEvent ACQUIRE_TOKEN_FAILURE Silent PayloadNull None,
      EmitEvent ACQUIRE_TOKEN_SUCCESS Silent (PayloadResult ex_result) None]"
proof -
  let ?vr = "ex_request\<lparr>Request.correlationId := Some ''g''\<rparr>"
  let ?r = "spec_fromCachedTokens ex_account ex_idToken ex_accessToken
           (ex_request\<lparr>Request.correlationId := Some ''g'',
                        Request.authority := Some ''login.windows.net''\<rparr>) ''g''"
  let ?wh = "ex_world ex_storage 2000"
  let ?wm = "ex_world ex_empty_storage 4800"
  have vh: "ensureValidRequest ex_controller ex_request ?wh = (?vr, ?wh\<lparr>guidsCreated := 1\<rparr>)"
    by (simp add: ex_defs spec_defs ensureValidRequest_def truthy_def newGuid_def)
  have vm: "ensureValidRequest ex_controller ex_request ?wm = (?vr, ?wm\<lparr>guidsCreated := 1\<rparr>)"
    by (simp add: ex_defs spec_defs ensureValidRequest_def truthy_def newGuid_def)
  have hit: "fst (acquireTokenFromCacheInternal ex_controller ?vr (?wh\<lparr>guidsCreated := 1\<rparr>))
               = Some ?r"
    by (simp add: acquireTokenFromCacheInternal_cases Let_def currentAccountOf_def
          correlationIdOr_def authRequestOf_def ex_defs spec_defs)
  have miss: "fst (acquireTokenFromCacheInternal ex_controller ?vr (?wm\<lparr>guidsCreated := 1\<rparr>))
               = None"
    by (simp add: acquireTokenFromCacheInternal_cases Let_def currentAccountOf_def
          ex_defs spec_defs)
  have ok: "fst (acquireTokenSilentInternal ex_controller ex_request ?wm) = Inr ex_result"
    by (simp add: ex_defs spec_defs controller_defs Let_def)
  have e: "trace ?wh = []" "trace ?wm = []" by (simp_all add: ex_defs)
  have a: "filter isEvent (newEffects ?wh
             (snd (acquireTokenSilentInternal ex_controller ex_request ?wh))) =
              [EmitEvent ACQUIRE_TOKEN_START Silent (PayloadRequest ?vr) None,
               EmitEvent ACQUIRE_TOKEN_SUCCESS Silent (PayloadResult ?r) None,
               EmitEvent ACQUIRE_TOKEN_SUCCESS Silent (PayloadResult ?r) None]"
    using conjunct1[OF cache_hit_emits_success_twice[OF vh]] hit by blast
  have b: "filter isEvent (newEffects ?wm
             (snd (acquireTokenSilentInternal ex_controller ex_request ?wm))) =
              [EmitEvent ACQUIRE_TOKEN_START Silent (PayloadRequest ?vr) None,
               EmitEvent ACQUIRE_TOKEN_FAILURE Silent PayloadNull None,
               EmitEvent ACQUIRE_TOKEN_SUCCESS Silent (PayloadResult ex_result) None]"
    using conjunct2[OF cache_hit_emits_success_twice[OF vm]] miss ok by blast
  from a b ok show ?thesis by (simp add: newEffects_def e)
qed

subsection \<open>Failures of the bridge path\<close>



text \<open>
  C3, as stated: after any failure of the bridge call, the conversion or the hydration
  the storage is what it was before. This fails when the storage's token hydration
  raises: the flow has already written the account entity with \<^verbatim>\<open>setAccount\<close> and
  nothing undoes it. Here the storage is empty after the cache attempt, the bridge
  answers, and the hydration raises; the caller gets the converted error, and the
  storage holds the account entity.
\<close>

theorem hydration_failure_leaves_account_entity:
  "fst (acquireTokenSilentInternal ex_quota_controller ex_request
          (ex_world ex_empty_storage 4800))
     = Inl (AuthError ''unknown_error'' ''quota_exceeded'')
 \<and> storage (snd (acquireTokenFromCache ex_quota_controller
                     (ex_request\<lparr>Request.correlationId := Some ''g''\<rparr>)
                     (ex_world ex_empty_storage 4800)))
     = ex_empty_storage
 \<and> storage (snd (acquireTokenSilentInternal ex_quota_controller ex_request
                     (ex_world ex_empty_storage 4800)))
     = ex_empty_storage\<lparr>accountEntities := [spec_createFromAccountInfo ex_account None None]\<rparr>
 \<and> storage (snd (acquireTokenSilentInternal ex_quota_controller ex_request
                     (ex_world ex_empty_storage 4800)))
     \<noteq> ex_empty_storage"
  by (simp add: ex_defs spec_defs controller_defs Let_def)

text \<open>
  C3, amended. When the silent or the interactive flow fails at the bridge call or at
  the conversion of the response, the storage is exactly what it was before the bridge
  call (in the silent flow: as the cache lookup left it). When it fails after a
  successful conversion, that is at the storage's token hydration, the storage is the
  one before the bridge call with the result's account entity written by
  \<^verbatim>\<open>setAccount\<close>, as the failed hydration call left it; the active account is not
  set.
\<close>

theorem failure_leaves_storage_or_account_entity:
  assumes v: "ensureValidRequest this request w = (vr, w1)"
      and naa: "naa = toNaaTokenRequest (nestedAppAuthAdapter this) vr"
      and s0: "s0 = storage (snd (acquireTokenFromCacheInternal this vr w1))"
  shows
   "(\<forall>err. fst (acquireTokenSilentInternal this request w) = Inl err \<longrightarrow>
       (case getTokenSilent (bridgeProxy this) naa of
          Inl e \<Rightarrow> storage (snd (acquireTokenSilentInternal this request w)) = s0
        | Inr response \<Rightarrow>
           (case fromNaaTokenResponse (nestedAppAuthAdapter this) naa response (nowSeconds w) of
              Inl e \<Rightarrow> storage (snd (acquireTokenSilentInternal this request w)) = s0
            | Inr result \<Rightarrow>
                storage (snd (acquireTokenSilentInternal this request w)) =
                  snd (BrowserCacheManager.hydrateCache (browserStorage this) (nowSeconds w)
                         result request
                         (setAccount (browserStorage this)
                            (createFromAccountInfo (modules this)
                               (AuthenticationResult.account result)
                               (AuthenticationResult.cloudGraphHostName result)
                               (AuthenticationResult.msGraphHost result)) s0)))))
  \<and> (\<forall>err. fst (acquireTokenInteractive this request w) = Inl err \<longrightarrow>
       (case getTokenInteractive (bridgeProxy this) naa of
          Inl e \<Rightarrow> storage (snd (acquireTokenInteractive this request w)) = storage w
        | Inr response \<Rightarrow>
           (case fromNaaTokenResponse (nestedAppAuthAdapter this) naa response (nowSeconds w) of
              Inl e \<Rightarrow> storage (snd (acquireTokenInteractive this request w)) = storage w
            | Inr result \<Rightarrow>
                storage (snd (acquireTokenInteractive this request w)) =
                  snd (BrowserCacheManager.hydrateCache (browserStorage this) (nowSeconds w)
                         result request
                         (setAccount (browserStorage this)
                            (createFromAccountInfo (modules this)
                               (AuthenticationResult.account result)
                               (AuthenticationResult.cloudGraphHostName result)
                               (AuthenticationResult.msGraphHost result)) (storage w))))))"
proof (intro conjI allI impI)
  note fr = ensureValidRequest_frame[OF v]
  let ?w6 = "(snd (acquireTokenFromCacheInternal this vr w1))
              \<lparr>trace := trace w @
                 [EmitEvent ACQUIRE_TOKEN_START Silent (PayloadRequest vr) None,
                  StartMeasurement AcquireTokenSilent (Request.correlationId vr),
                  MeasurementAdd AcquireTokenSilent [nestedAppAuthRequest True]]
                 @ newEffects w1 (snd (acquireTokenFromCacheInternal this vr w1))
                 @ [EmitEvent ACQUIRE_TOKEN_FAILURE Silent PayloadNull None,
                    MeasurementEnd AcquireTokenSilent False None None,
                    StartMeasurement SsoSilent (Request.correlationId vr),
                    MeasurementIncrement SsoSilent [visibilityChangeCount 0],
                    MeasurementAdd SsoSilent [nestedAppAuthRequest True]]\<rparr>"
  let ?ts = "acquireTokenSilentInternal_try this request vr ?w6"
  let ?w4 = "w1\<lparr>trace := trace w @
                 [EmitEvent ACQUIRE_TOKEN_START Popup (PayloadRequest vr) None,
                  StartMeasurement AcquireTokenPopup (Request.correlationId vr),
                  MeasurementAdd AcquireTokenPopup [nestedAppAuthRequest True]]\<rparr>"
  let ?ti = "acquireTokenInteractive_try this request vr ?w4"
  have w6: "nowSeconds ?w6 = nowSeconds w" "storage ?w6 = s0"
    using fr s0 by (simp_all add: acquireTokenFromCacheInternal_effects)
  have w4: "nowSeconds ?w4 = nowSeconds w" "storage ?w4 = storage w"
    using fr by simp_all
  {
    fix err
    assume fail: "fst (acquireTokenSilentInternal this request w) = Inl err"
    have miss: "fst (acquireTokenFromCacheInternal this vr w1) = None"
    proof (cases "fst (acquireTokenFromCacheInternal this vr w1)")
      case None then show ?thesis .
    next
      case (Some r)
      from silent_hit[OF v Some] fail show ?thesis by simp
    qed
    obtain x w7 where t: "?ts = (x, w7)" by (cases ?ts)
    from silent_miss[OF v miss] t fail obtain e where
      x: "x = Inl e"
      and st: "storage (snd (acquireTokenSilentInternal this request w)) = storage w7"
      by (cases x) auto
    have f: "fst ?ts = Inl e" and s: "storage (snd ?ts) = storage w7" using t x by simp_all
    show "case getTokenSilent (bridgeProxy this) naa of
          Inl e \<Rightarrow> storage (snd (acquireTokenSilentInternal this request w)) = s0
        | Inr response \<Rightarrow>
           (case fromNaaTokenResponse (nestedAppAuthAdapter this) naa response (nowSeconds w) of
              Inl e \<Rightarrow> storage (snd (acquireTokenSilentInternal this request w)) = s0
            | Inr result \<Rightarrow>
                storage (snd (acquireTokenSilentInternal this request w)) =
                  snd (BrowserCacheManager.hydrateCache (browserStorage this) (nowSeconds w)
                         result request
                         (setAccount (browserStorage this)
                            (createFromAccountInfo (modules this)
                               (AuthenticationResult.account result)
                               (AuthenticationResult.cloudGraphHostName result)
                               (AuthenticationResult.msGraphHost result)) s0)))"
      using f s unfolding st silent_try_cases(1,2) w6 naa
      by (auto simp: Let_def split_beta split: sum.splits)
  }
  {
    fix err
    assume fail: "fst (acquireTokenInteractive this request w) = Inl err"
    obtain x w5 where t: "?ti = (x, w5)" by (cases ?ti)
    from interactive_flow[OF v] t fail obtain e where
      x: "x = Inl e"
      and st: "storage (snd (acquireTokenInteractive this request w)) = storage w5"
      by (cases x) auto
    have f: "fst ?ti = Inl e" and s: "storage (snd ?ti) = storage w5" using t x by simp_all
    show "case getTokenInteractive (bridgeProxy this) naa of
          Inl e \<Rightarrow> storage (snd (acquireTokenInteractive this request w)) = storage w
        | Inr response \<Rightarrow>
           (case fromNaaTokenResponse (nestedAppAuthAdapter this) naa response (nowSeconds w) of
              Inl e \<Rightarrow> storage (snd (acquireTokenInteractive this request w)) = storage w
            | Inr result \<Rightarrow>
                storage (snd (acquireTokenInteractive this request w)) =
                  snd (BrowserCacheManager.hydrateCache (browserStorage this) (nowSeconds w)
                         result request
                         (setAccount (browserStorage this)
                            (createFromAccountInfo (modules this)
                               (AuthenticationResult.account result)
                               (AuthenticationResult.cloudGraphHostName result)
                               (AuthenticationResult.msGraphHost result)) (storage w))))"
      using f s unfolding st interactive_try_cases(1,2) w4 naa
      by (auto simp: Let_def split_beta split: sum.splits)
  }
qed


theorem failure_leaves_storage_or_account_entity_witness:
  "fst (acquireTokenSilentInternal ex_failing_controller ex_request (ex_world ex_storage 4800))
     = Inl (AuthError ''USER_CANCEL'' ''cancelled'')
 \<and> storage (snd (acquireTokenSilentInternal ex_failing_controller ex_request
                     (ex_world ex_storage 4800)))
     = storage (snd (acquireTokenFromCacheInternal ex_failing_controller
                       (ex_request\<lparr>Request.correlationId := Some ''g''\<rparr>)
                       ((ex_world ex_storage 4800)\<lparr>guidsCreated := 1\<rparr>)))
 \<and> fst (acquireTokenInteractive ex_quota_controller ex_request (ex_world ex_storage 4800))
     = Inl (AuthError ''unknown_error'' ''quota_exceeded'')
 \<and> storage (snd (acquireTokenInteractive ex_quota_controller ex_request
                     (ex_world ex_storage 4800)))
     = spec_setAccount (spec_createFromAccountInfo ex_account None None) ex_storage"
proof -
  let ?w = "ex_world ex_storage 4800"
  let ?vr = "ex_request\<lparr>Request.correlationId := Some ''g''\<rparr>"
  let ?naa = "spec_toNaaTokenRequest ''client-id'' ?vr"
  have v1: "ensureValidRequest ex_failing_controller ex_request ?w = (?vr, ?w\<lparr>guidsCreated := 1\<rparr>)"
    by (simp add: ex_defs spec_defs ensureValidRequest_def truthy_def newGuid_def)
  have v2: "ensureValidRequest ex_quota_controller ex_request ?w = (?vr, ?w\<lparr>guidsCreated := 1\<rparr>)"
    by (simp add: ex_defs spec_defs ensureValidRequest_def truthy_def newGuid_def)
  have n1: "?naa = toNaaTokenRequest (nestedAppAuthAdapter ex_failing_controller) ?vr"
    by (simp add: ex_defs spec_defs)
  have n2: "?naa = toNaaTokenRequest (nestedAppAuthAdapter ex_quota_controller) ?vr"
    by (simp add: ex_defs spec_defs)
  have f1: "fst (acquireTokenSilentInternal ex_failing_controller ex_request ?w)
              = Inl (AuthError ''USER_CANCEL'' ''cancelled'')"
    by (simp add: ex_defs spec_defs controller_defs Let_def)
  have f2: "fst (acquireTokenInteractive ex_quota_controller ex_request ?w)
              = Inl (AuthError ''unknown_error'' ''quota_exceeded'')"
    by (simp add: ex_defs spec_defs controller_defs Let_def)
  have b1: "getTokenSilent (bridgeProxy ex_failing_controller) ?naa
              = Inl (BridgeError ''USER_CANCEL'' ''cancelled'')"
    by (simp add: ex_defs spec_defs)
  have b2: "getTokenInteractive (bridgeProxy ex_quota_controller) ?naa = Inr ex_response"
    by (simp add: ex_defs spec_defs)
  have c2: "fromNaaTokenResponse (nestedAppAuthAdapter ex_quota_controller) ?naa ex_response
              (nowSeconds ?w) = Inr ex_result"
    by (simp add: ex_defs spec_defs)
  have e2: "snd (BrowserCacheManager.hydrateCache (browserStorage ex_quota_controller)
                   (nowSeconds ?w) ex_result ex_request
                   (setAccount (browserStorage ex_quota_controller)
                      (createFromAccountInfo (modules ex_quota_controller)
                         (AuthenticationResult.account ex_result)
                         (AuthenticationResult.cloudGraphHostName ex_result)
                         (AuthenticationResult.msGraphHost ex_result)) (storage ?w)))
            = spec_setAccount (spec_createFromAccountInfo ex_account None None) ex_storage"
    by (simp add: ex_defs spec_defs)
  from conjunct1[OF failure_leaves_storage_or_account_entity[OF v1 n1 refl]] f1 b1
  have a: "storage (snd (acquireTokenSilentInternal ex_failing_controller ex_request ?w))
     = storage (snd (acquireTokenFromCacheInternal ex_failing_controller ?vr
                       (?w\<lparr>guidsCreated := 1\<rparr>)))"
    by simp
  from conjunct2[OF failure_leaves_storage_or_account_entity[OF v2 n2 refl]] f2 b2 c2 e2
  have b: "storage (snd (acquireTokenInteractive ex_quota_controller ex_request ?w))
     = spec_setAccount (spec_createFromAccountInfo ex_account None None) ex_storage"
    by simp
  from f1 a f2 b show ?thesis by simp
qed

subsection \<open>The correlation identifier\<close>




subsection \<open>Hydration\<close>

text \<open>
  C8. On the storage of the specification, hydrating the cache with a result and
  setting its account active always returns, and doing it twice leaves the storage
  (accounts, tokens, active account) that doing it once leaves. The access token is
  stamped with the clock reading of the call; when the clock has moved between the two
  calls, the storage is the one a single call at the later reading leaves.
\<close>

theorem hydrateCache_idempotent:
  "fst (hydrateCache (spec_controller bridge client offset) result request w) = Inr ()
 \<and> storage (hydrateCache_then_setActiveAccount (spec_controller bridge client offset)
               result request
               (hydrateCache_then_setActiveAccount (spec_controller bridge client offset)
                  result request w))
     = storage (hydrateCache_then_setActiveAccount (spec_controller bridge client offset)
                  result request w)
 \<and> storage (hydrateCache_then_setActiveAccount (spec_controller bridge client offset)
               result request
               ((hydrateCache_then_setActiveAccount (spec_controller bridge client offset)
                   result request w)\<lparr>nowSeconds := t\<rparr>))
     = storage (hydrateCache_then_setActiveAccount (spec_controller bridge client offset)
                  result request (w\<lparr>nowSeconds := t\<rparr>))"
  by (simp add: hydrateCache_then_setActiveAccount_def hydrateCache_def
        browserStorage_setActiveAccount_def perform_def Let_def spec_controller_def
        spec_storage_def spec_modules_def spec_setAccount_def spec_setActiveAccount_def
        spec_hydrateCache_def accessTokenEntityOf_def idTokenEntityOf_def
        spec_createFromAccountInfo_def)

theorem hydrateCache_idempotent_witness:
  "storage (hydrateCache_then_setActiveAccount ex_controller ex_result ex_request
              (hydrateCache_then_setActiveAccount ex_controller ex_result ex_request
                 (ex_world ex_empty_storage 4800)))
     = \<lparr>accountEntities = [spec_createFromAccountInfo ex_account None None],
        accessTokenEntities = [accessTokenEntityOf 4800 ex_result ex_request],
        idTokenEntities = [idTokenEntityOf ex_result],
        activeAccount = Some ex_account\<rparr>"
proof -
  have once: "storage (hydrateCache_then_setActiveAccount ex_controller ex_result ex_request
                 (ex_world ex_empty_storage 4800))
     = \<lparr>accountEntities = [spec_createFromAccountInfo ex_account None None],
        accessTokenEntities = [accessTokenEntityOf 4800 ex_result ex_request],
        idTokenEntities = [idTokenEntityOf ex_result],
        activeAccount = Some ex_account\<rparr>"
    by (simp add: hydrateCache_then_setActiveAccount_def hydrateCache_def
        browserStorage_setActiveAccount_def perform_def Let_def ex_defs spec_defs)
  from hydrateCache_idempotent[of ex_bridge "''client-id''" 300 ex_result ex_request
        "ex_world ex_empty_storage 4800" 4800] once
  show ?thesis by (simp add: ex_controller_def)
qed

end
